theory Spec2Isabelle
  imports Complex_Main
begin

section \<open>Python values and exceptions\<close>

text \<open>
  The training module \<^verbatim>\<open>train.py\<close> (class \<^verbatim>\<open>W2V2Distil\<close>) is embedded as
  HOL functions. Every exception the Python code can raise is a value of \<open>error\<close>,
  and a computation that may raise returns \<open>error + 'a\<close> with \<open>Inl\<close> for the
  exception. Floating-point scalars are idealised as \<open>real\<close>.
\<close>

datatype error =
    KeyError string
  | IndexError
  | TypeError
  | AttributeError
  | RuntimeError
  | External string

text \<open>
  A list comprehension \<^verbatim>\<open>[f(x) for x in xs]\<close> whose body may raise: elements are
  evaluated left to right and the first exception ends the comprehension.
\<close>

fun map_err :: "('a \<Rightarrow> error + 'b) \<Rightarrow> 'a list \<Rightarrow> error + 'b list" where
  "map_err f [] = Inr []"
| "map_err f (x # xs) =
     (case f x of
        Inl e \<Rightarrow> Inl e
      | Inr y \<Rightarrow> (case map_err f xs of Inl e \<Rightarrow> Inl e | Inr ys \<Rightarrow> Inr (y # ys)))"

text \<open>
  A Python dictionary with string keys is an association list in the order it was written;
  \<^verbatim>\<open>d[k]\<close> raises \<^verbatim>\<open>KeyError\<close> for a missing key.
\<close>

definition getitem :: "(string \<times> 'v) list \<Rightarrow> string \<Rightarrow> error + 'v" where
  "getitem d k = (case map_of d k of None \<Rightarrow> Inl (KeyError k) | Some v \<Rightarrow> Inr v)"

text \<open>Sequencing of computations that may raise: the first exception is the result.\<close>

definition bind_err :: "error + 'a \<Rightarrow> ('a \<Rightarrow> error + 'b) \<Rightarrow> error + 'b" where
  "bind_err m f = (case m of Inl e \<Rightarrow> Inl e | Inr x \<Rightarrow> f x)"

section \<open>The character table and the ground-truth CTC target\<close>

text \<open>
  \<^verbatim>\<open>self.char_dict\<close> of \<^verbatim>\<open>__init__\<close>: a dictionary from strings to token indices,
  in the order the source writes it. The keys are Python strings; four of them are longer
  than one character.
\<close>

definition char_dict :: "(string \<times> nat) list" where
  "char_dict =
     [(''<s>'', 0), (''<pad>'', 1), (''</s>'', 2), (''<unk>'', 3), ('' '', 4), (''E'', 5),
      (''T'', 6), (''A'', 7), (''O'', 8), (''N'', 9), (''I'', 10), (''H'', 11), (''S'', 12),
      (''R'', 13), (''D'', 14), (''L'', 15), (''U'', 16), (''M'', 17), (''W'', 18), (''C'', 19),
      (''F'', 20), (''G'', 21), (''Y'', 22), (''P'', 23), (''B'', 24), (''V'', 25), (''K'', 26),
      ([CHR 0x27], 27), (''X'', 28), (''J'', 29), (''Q'', 30), (''Z'', 31)]"

text \<open>
  \<^verbatim>\<open>[self.char_dict[char] for char in label]\<close>: a missing key raises
  \<^verbatim>\<open>KeyError\<close> (see \<open>getitem\<close>);
  iterating a Python string yields its
  characters as strings of length one, so the key looked up for the character \<open>c\<close> is
  the string \<open>[c]\<close>.
\<close>

definition label_tokens :: "string \<Rightarrow> error + nat list" where
  "label_tokens label = map_err (\<lambda>c. getitem char_dict [c]) label"

text \<open>
  \<^verbatim>\<open>gt_tokens = [torch.tensor([...]) for label in labels]\<close>; iterating
  \<^verbatim>\<open>labels=None\<close> raises \<^verbatim>\<open>TypeError\<close>.
\<close>

definition gt_tokens :: "string list option \<Rightarrow> error + nat list list" where
  "gt_tokens labels =
     (case labels of None \<Rightarrow> Inl TypeError | Some ls \<Rightarrow> map_err label_tokens ls)"

text \<open>\<^verbatim>\<open>torch.cat\<close> of a list of 1-D tensors; an empty list is refused by torch.\<close>

definition torch_cat :: "nat list list \<Rightarrow> error + nat list" where
  "torch_cat ts = (if ts = [] then Inl RuntimeError else Inr (concat ts))"

text \<open>
  Lines 239--241 of \<^verbatim>\<open>calculate_loss\<close>: the pair \<^verbatim>\<open>(target, target_lengths)\<close>
  built from the ground-truth labels.
\<close>

definition gt_target :: "string list option \<Rightarrow> error + (nat list \<times> nat list)" where
  "gt_target labels =
     (case gt_tokens labels of
        Inl e \<Rightarrow> Inl e
      | Inr toks \<Rightarrow>
          (case torch_cat toks of
             Inl e \<Rightarrow> Inl e
           | Inr target \<Rightarrow> Inr (target, map length toks)))"

text \<open>The characters that are keys of the table on their own: 26 letters, space, apostrophe.\<close>

definition alphabet_chars :: "char list" where
  "alphabet_chars = '' ETAONIHSRDLUMWCFGYPBVK'' @ [CHR 0x27] @ ''XJQZ''"

section \<open>Configuration values and the student configuration\<close>

text \<open>
  Values of the configuration file and of configuration attributes. The configuration
  file is a dictionary of sections; the sections \<^verbatim>\<open>train\<close> and \<^verbatim>\<open>data\<close>
  are read key by key with fixed keys and are records here, the section
  \<^verbatim>\<open>distiller\<close> is handed to \<^verbatim>\<open>update_student_config\<close> as a dictionary.
\<close>

datatype cfgval = VInt int | VReal real | VBool bool | VStr string | VInts "int list" | VNone

type_synonym pydict = "(string \<times> cfgval) list"

text \<open>A configuration object: the values of its attributes, by attribute name.\<close>

type_synonym config = "string \<Rightarrow> cfgval option"

record train_cfg =
  batch_size :: int
  gpus :: int
  num_epochs :: int
  accumulate_grad_batches :: int
  learning_rate :: string
  warmup_ratio :: real
  cosine_weight :: real
  monitor_losses :: bool
  use_gt_for_ctc :: bool

record data_cfg =
  bucketing_path :: string
  libri_root :: string
  train_set :: "string list"
  test_set :: "string list"

record yaml_cfg =
  teacher_model :: string
  distiller :: pydict
  train :: train_cfg
  data :: data_cfg

text \<open>\<^verbatim>\<open>getattr(teacher_config, k)\<close>: a missing attribute raises \<^verbatim>\<open>AttributeError\<close>.\<close>

definition getattr :: "pydict \<Rightarrow> string \<Rightarrow> error + cfgval" where
  "getattr obj k = (case map_of obj k of None \<Rightarrow> Inl AttributeError | Some v \<Rightarrow> Inr v)"

text \<open>
  Lines 55--57 of \<^verbatim>\<open>__init__\<close>, the loop over \<^verbatim>\<open>teacher_config.keys()\<close>:
  every teacher attribute whose name is in \<^verbatim>\<open>target_keys\<close> is copied to the
  student configuration.
\<close>

fun copy_teacher_attrs :: "string list \<Rightarrow> pydict \<Rightarrow> string list \<Rightarrow> config \<Rightarrow> error + config" where
  "copy_teacher_attrs target_keys teacher_config [] sc = Inr sc"
| "copy_teacher_attrs target_keys teacher_config (k # ks) sc =
     (if k \<in> set target_keys then
        (case getattr teacher_config k of
           Inl e \<Rightarrow> Inl e
         | Inr v \<Rightarrow> copy_teacher_attrs target_keys teacher_config ks (sc(k \<mapsto> v)))
      else copy_teacher_attrs target_keys teacher_config ks sc)"

text \<open>
  The assignments of \<^verbatim>\<open>update_student_config\<close> (lines 297--309), in source order:
  the attribute of the student configuration that is set, and the key of \<^verbatim>\<open>cfg\<close>
  it is read from. Three attributes are read from a key of another name.
\<close>

definition student_overrides :: "(string \<times> string) list" where
  "student_overrides =
     [(''encoder_layers'', ''encoder_layers''),
      (''enable_tr_layer'', ''enable_tr_layer''),
      (''type_of_tr_layer'', ''type_of_tr_layer''),
      (''tr_layer_floor'', ''tr_layer_index''),
      (''init_conv_layers'', ''init_conv_layers''),
      (''init_encoder_layers'', ''init_encoder_layers''),
      (''proj_head_inter_dim'', ''pred_head_inter_dim''),
      (''proj_head_final_dim'', ''pred_head_final_dim''),
      (''pred_layer_id'', ''pred_layer_id'')]"

text \<open>
  \<^verbatim>\<open>self.student_config.attr = cfg[key]\<close>, one assignment after the other;
  the first missing key raises \<^verbatim>\<open>KeyError\<close> and ends the method.
\<close>

fun assign_from :: "(string \<times> string) list \<Rightarrow> pydict \<Rightarrow> config \<Rightarrow> error + config" where
  "assign_from [] cfg sc = Inr sc"
| "assign_from ((attr, key) # rest) cfg sc =
     (case getitem cfg key of
        Inl e \<Rightarrow> Inl e
      | Inr v \<Rightarrow> assign_from rest cfg (sc(attr \<mapsto> v)))"

text \<open>
  \<^verbatim>\<open>update_student_config(self, cfg)\<close>; the last assignment (line 310) stores
  \<^verbatim>\<open>self.task_agnostic\<close>.
\<close>

definition update_student_config :: "bool \<Rightarrow> config \<Rightarrow> pydict \<Rightarrow> error + config" where
  "update_student_config task_agnostic sc cfg =
     bind_err (assign_from student_overrides cfg sc)
       (\<lambda>sc'. Inr (sc'(''teacher_task_agnostic'' \<mapsto> VBool task_agnostic)))"

text \<open>The keys that \<^verbatim>\<open>update_student_config\<close> reads from \<^verbatim>\<open>cfg\<close>, in source order.\<close>

definition required_keys :: "string list" where
  "required_keys = map snd student_overrides"

text \<open>
  Lines 53--63 of \<^verbatim>\<open>__init__\<close>: the student configuration is resolved from the
  defaults of \<^verbatim>\<open>CustomStudentModelConfig()\<close>, the teacher's configuration and the
  \<^verbatim>\<open>distiller\<close> section. The class \<^verbatim>\<open>CustomStudentModelConfig\<close> is defined in
  another module: its default attributes and the result of
  \<^verbatim>\<open>_get_all_attributes()\<close> are parameters.
\<close>

definition resolve_student_config ::
  "config \<Rightarrow> string list \<Rightarrow> pydict \<Rightarrow> bool \<Rightarrow> pydict \<Rightarrow> error + config" where
  "resolve_student_config defaults target_keys teacher_config task_agnostic distiller_cfg =
     bind_err (copy_teacher_attrs target_keys teacher_config (map fst teacher_config) defaults)
       (\<lambda>sc. update_student_config task_agnostic sc distiller_cfg)"

section \<open>Effects: the trace of calls to collaborators\<close>

text \<open>
  The methods of \<^verbatim>\<open>W2V2Distil\<close> call collaborators that are not part of the module
  (the model loader, the student model, torch, the metric objects, the logger). A run of
  a method is the list of such calls it made, in order, and its result or exception.
\<close>

datatype pyval = Scalar real | Tensor1 "real list" | PyList "real list"

datatype event =
    LoadMetric string
  | LoadTeacher string
  | FreezeTeacher
  | DumpConfig
  | ConstructStudent
  | BuildDataset "string list"
  | EvalLearningRate string
  | BuildAdamW
  | GetScheduler int int
  | GetOptimizer int
  | Forward
  | CtcLogSoftmax
  | CtcConverter
  | CtcLoss
  | DecoderDecode
  | MetricAddBatch string
  | Log string pyval

type_synonym 'a run = "event list \<times> (error + 'a)"

definition ret :: "'a \<Rightarrow> 'a run" where
  "ret x = ([], Inr x)"

definition lift :: "error + 'a \<Rightarrow> 'a run" where
  "lift r = ([], r)"

definition emit :: "event \<Rightarrow> unit run" where
  "emit ev = ([ev], Inr ())"

text \<open>A call to a collaborator: the call is recorded, its result or exception follows.\<close>

definition call :: "event \<Rightarrow> error + 'a \<Rightarrow> 'a run" where
  "call ev r = ([ev], r)"

definition bind_run :: "'a run \<Rightarrow> ('a \<Rightarrow> 'b run) \<Rightarrow> 'b run" where
  "bind_run m f =
     (case m of
        (tr, Inl e) \<Rightarrow> (tr, Inl e)
      | (tr, Inr x) \<Rightarrow> (case f x of (tr', r) \<Rightarrow> (tr @ tr', r)))"

section \<open>Construction of the module and of its optimizer\<close>

record student_model =
  pred_layer_id :: "int list"

text \<open>
  The attributes of a \<^verbatim>\<open>W2V2Distil\<close> object that the methods read:
  \<open>cfg\<close> is \<^verbatim>\<open>self.yaml_cfg\<close>, \<open>student\<close> is \<^verbatim>\<open>self.student_model\<close>, and
  \<open>train_data\<close> is the number of batches of \<^verbatim>\<open>self.train_data\<close>.
\<close>

record w2v2distil =
  cfg :: yaml_cfg
  task_agnostic :: bool
  student_config :: config
  student :: student_model
  train_data :: nat

text \<open>
  The collaborators of \<^verbatim>\<open>__init__\<close> and \<^verbatim>\<open>configure_optimizers\<close>:
  \<^verbatim>\<open>load_model_and_config\<close> (returning the teacher's configuration and whether it
  is task agnostic; the teacher model itself is not inspected by this module), the
  defaults and attribute names of \<^verbatim>\<open>CustomStudentModelConfig\<close>, \<^verbatim>\<open>dump_yaml\<close>,
  the constructor \<^verbatim>\<open>CustomStudentModel\<close>, \<^verbatim>\<open>LibriDataset\<close> (returning the number
  of batches of the data set), Python's \<^verbatim>\<open>eval\<close>, and the product of two
  floating-point numbers as the machine rounds it.
\<close>

record env =
  load_model_and_config :: "string \<Rightarrow> error + (pydict \<times> bool)"
  student_defaults :: config
  get_all_attributes :: "string list"
  dump_yaml :: "config \<Rightarrow> error + unit"
  custom_student_model :: "config \<Rightarrow> error + student_model"
  libri_dataset :: "string list \<Rightarrow> error + nat"
  py_eval :: "string \<Rightarrow> error + real"
  float_mul :: "real \<Rightarrow> real \<Rightarrow> real"

text \<open>\<^verbatim>\<open>W2V2Distil.__init__(self, cfg)\<close>, lines 28--103.\<close>

definition init :: "env \<Rightarrow> yaml_cfg \<Rightarrow> w2v2distil run" where
  "init X yaml =
     bind_run (emit (LoadMetric ''wer'')) (\<lambda>_.
     bind_run (emit (LoadMetric ''cer'')) (\<lambda>_.
     bind_run (call (LoadTeacher (teacher_model yaml))
                 (load_model_and_config X (teacher_model yaml))) (\<lambda>(teacher_config, ta).
     bind_run (emit FreezeTeacher) (\<lambda>_.
     bind_run (lift (resolve_student_config (student_defaults X) (get_all_attributes X)
                 teacher_config ta (distiller yaml))) (\<lambda>sc.
     bind_run (call DumpConfig (dump_yaml X sc)) (\<lambda>_.
     bind_run (call ConstructStudent (custom_student_model X sc)) (\<lambda>sm.
     bind_run (call (BuildDataset (train_set (data yaml)))
                 (libri_dataset X (train_set (data yaml)))) (\<lambda>n_train.
     bind_run (call (BuildDataset [''dev-clean'']) (libri_dataset X [''dev-clean''])) (\<lambda>_.
     bind_run (call (BuildDataset (test_set (data yaml)))
                 (libri_dataset X (test_set (data yaml)))) (\<lambda>_.
     ret \<lparr>cfg = yaml, task_agnostic = ta, student_config = sc, student = sm,
          train_data = n_train\<rparr>))))))))))"

text \<open>The calls that \<^verbatim>\<open>__init__\<close> makes when none of them raises, in order.\<close>

definition init_events :: "yaml_cfg \<Rightarrow> event list" where
  "init_events yaml =
     [LoadMetric ''wer'', LoadMetric ''cer'', LoadTeacher (teacher_model yaml), FreezeTeacher,
      DumpConfig, ConstructStudent, BuildDataset (train_set (data yaml)),
      BuildDataset [''dev-clean''], BuildDataset (test_set (data yaml))]"

text \<open>Python's \<^verbatim>\<open>//\<close> on integers: floor division, \<^verbatim>\<open>ZeroDivisionError\<close> for 0.\<close>

definition floordiv :: "int \<Rightarrow> int \<Rightarrow> error + int" where
  "floordiv a b = (if b = 0 then Inl (External ''ZeroDivisionError'') else Inr (a div b))"

text \<open>Python's \<^verbatim>\<open>int(x)\<close> on a float: truncation towards zero.\<close>

definition py_int :: "real \<Rightarrow> int" where
  "py_int x = (if 0 \<le> x then \<lfloor>x\<rfloor> else \<lceil>x\<rceil>)"

text \<open>
  \<^verbatim>\<open>configure_optimizers(self)\<close>, lines 260--280: the learning rate is evaluated
  from its string first (line 261) and \<^verbatim>\<open>torch.optim.AdamW\<close> refuses a negative
  rate with \<^verbatim>\<open>ValueError\<close>; the number of warm-up steps is
  \<^verbatim>\<open>int(num_training_steps * warmup_ratio)\<close>, a floating-point product; the method
  returns at the first \<^verbatim>\<open>return\<close> with the optimizer of \<^verbatim>\<open>get_optimizer\<close>,
  identified here by its number of training steps.
\<close>

definition configure_optimizers :: "env \<Rightarrow> w2v2distil \<Rightarrow> int run" where
  "configure_optimizers X self =
     (let t = train (cfg self) in
      bind_run (call (EvalLearningRate (learning_rate t)) (py_eval X (learning_rate t))) (\<lambda>lr.
      bind_run (call BuildAdamW
                  (if lr < 0 then Inl (External ''ValueError'') else Inr ())) (\<lambda>_.
      bind_run (lift (floordiv (int (train_data self)) (gpus t))) (\<lambda>train_batches.
      bind_run (lift (floordiv (num_epochs t * train_batches)
                  (accumulate_grad_batches t))) (\<lambda>num_training_steps.
      bind_run (emit (GetScheduler
                  (py_int (float_mul X (real_of_int num_training_steps) (warmup_ratio t)))
                  num_training_steps)) (\<lambda>_.
      bind_run (emit (GetOptimizer num_training_steps)) (\<lambda>_.
      ret num_training_steps)))))))"

text \<open>
  The training branch of the script (lines 360 and 397, no checkpoint): the module is
  constructed, then \<^verbatim>\<open>trainer.fit(model)\<close> asks the constructed module for its
  optimizer by calling \<^verbatim>\<open>configure_optimizers\<close>.
\<close>

definition main_fit :: "env \<Rightarrow> yaml_cfg \<Rightarrow> (w2v2distil \<times> int) run" where
  "main_fit X yaml =
     bind_run (init X yaml) (\<lambda>self.
     bind_run (configure_optimizers X self) (\<lambda>opt.
     ret (self, opt)))"

section \<open>Tensors and the torch operations of the loss\<close>

text \<open>
  A tensor is a nested list of reals, outermost dimension first. Where torch refuses
  its arguments the operation returns an exception. Two tensors have the same shape when
  their nested lists have the same lengths throughout.
\<close>

type_synonym tensor2 = "real list list"
type_synonym tensor3 = "real list list list"
type_synonym tensor4 = "real list list list list"

text \<open>\<^verbatim>\<open>xs[i]\<close> on a Python list: a negative index counts from the end.\<close>

definition py_index :: "'a list \<Rightarrow> int \<Rightarrow> error + 'a" where
  "py_index xs i =
     (if 0 \<le> i \<and> i < int (length xs) then Inr (xs ! nat i)
      else if i < 0 \<and> - int (length xs) \<le> i then Inr (xs ! nat (int (length xs) + i))
      else Inl IndexError)"

text \<open>\<^verbatim>\<open>t.transpose(0, 1)\<close>: the first two dimensions are exchanged.\<close>

definition transpose01 :: "'a list list \<Rightarrow> 'a list list" where
  "transpose01 t = transpose t"

text \<open>
  \<^verbatim>\<open>torch.stack(ts, dim=1)\<close> of tensors of three dimensions: the list must not be
  empty and its tensors must have one shape; the new dimension is the second one.
\<close>

definition torch_stack :: "tensor3 list \<Rightarrow> error + tensor4" where
  "torch_stack ts =
     (case ts of
        [] \<Rightarrow> Inl RuntimeError
      | t # _ \<Rightarrow>
          if list_all (\<lambda>u. map (map length) u = map (map length) t) ts
          then Inr (transpose01 ts) else Inl RuntimeError)"

text \<open>
  Broadcasting along one dimension, as torch applies it to the arguments of an
  element-wise operation: two lists of the same length are combined element by element,
  a list of length one is repeated along the other list, and any other pair of lengths
  is refused. \<open>bcast\<close> checks the lengths and may raise; \<open>bmap2\<close> is the same
  combination for arguments that have been accepted.
\<close>

definition bcast :: "('a \<Rightarrow> 'b \<Rightarrow> error + 'c) \<Rightarrow> 'a list \<Rightarrow> 'b list \<Rightarrow> error + 'c list" where
  "bcast g xs ys =
     (if length xs = length ys then map_err (\<lambda>(x, y). g x y) (zip xs ys)
      else if length xs = 1 then map_err (g (hd xs)) ys
      else if length ys = 1 then map_err (\<lambda>x. g x (hd ys)) xs
      else Inl RuntimeError)"

definition bmap2 :: "('a \<Rightarrow> 'b \<Rightarrow> 'c) \<Rightarrow> 'a list \<Rightarrow> 'b list \<Rightarrow> 'c list" where
  "bmap2 g xs ys =
     (if length xs = length ys then map2 g xs ys
      else if length xs = 1 then map (g (hd xs)) ys
      else if length ys = 1 then map (\<lambda>x. g x (hd ys)) xs
      else [])"

text \<open>
  \<^verbatim>\<open>F.l1_loss(a, b, reduction="none")\<close>: the two tensors are broadcast against
  each other in all four dimensions, and the result is the absolute difference, element
  by element.
\<close>

definition l1_loss :: "tensor4 \<Rightarrow> tensor4 \<Rightarrow> error + tensor4" where
  "l1_loss a b = bcast (bcast (bcast (bcast (\<lambda>p q. Inr \<bar>p - q\<bar>)))) a b"

text \<open>The mean of a list of reals; for no elements torch returns nan, and this mean is 0.\<close>

definition mean :: "real list \<Rightarrow> real" where
  "mean xs = sum_list xs / real (length xs)"

text \<open>
  The means of lines 216, 218, 223 and 224 over a tensor of dimensions
  batch, layer, time (and feature): per layer, and over all elements.
\<close>

definition mean_023 :: "tensor4 \<Rightarrow> real list" where
  "mean_023 t = map (\<lambda>layer. mean (concat (concat layer))) (transpose01 t)"

definition mean_all4 :: "tensor4 \<Rightarrow> real" where
  "mean_all4 t = mean (concat (concat (concat t)))"

definition mean_02 :: "tensor3 \<Rightarrow> real list" where
  "mean_02 t = map (\<lambda>layer. mean (concat layer)) (transpose01 t)"

definition mean_all3 :: "tensor3 \<Rightarrow> real" where
  "mean_all3 t = mean (concat (concat t))"

text \<open>\<^verbatim>\<open>argmax\<close> along the last dimension: the first index of a greatest element.\<close>

definition argmax :: "real list \<Rightarrow> nat" where
  "argmax xs =
     (case xs of
        [] \<Rightarrow> 0
      | y # _ \<Rightarrow> fst (fold (\<lambda>(i, v) (bi, bv). if bv < v then (i, v) else (bi, bv))
                        (enumerate 0 xs) (0, y)))"

text \<open>
  The results of the two models for one batch, as \<^verbatim>\<open>forward\<close> returns them:
  of the student its output \<^verbatim>\<open>x\<close>, its \<^verbatim>\<open>projections\<close> and, when the key is
  present, \<^verbatim>\<open>encoder_out\<close>; of the teacher its output \<^verbatim>\<open>x\<close> and its
  \<^verbatim>\<open>layer_results\<close>, each entry a list whose element 0 is the layer's output
  (time, batch, feature).
\<close>

record student_results =
  s_x :: tensor3
  projections :: tensor4
  encoder_out :: "tensor3 option"

record teacher_results =
  t_x :: tensor3
  layer_results :: "(tensor3 \<times> tensor3 list) list"

text \<open>
  A batch is a dictionary with the audio \<^verbatim>\<open>x\<close>, optionally
  \<^verbatim>\<open>padding_mask\<close>, and optionally \<^verbatim>\<open>labels\<close>.
\<close>

record batch =
  b_x :: tensor2
  b_padding_mask :: "bool list list option"
  b_labels :: "string list option"

text \<open>
  The collaborators of the loss and of the steps: the two models behind
  \<^verbatim>\<open>forward\<close>, the torch functions that are taken as given
  (\<^verbatim>\<open>F.cosine_similarity\<close> along the last dimension, \<^verbatim>\<open>F.logsigmoid\<close>,
  \<^verbatim>\<open>log_softmax\<close> along the last dimension, \<^verbatim>\<open>F.ctc_loss\<close>), and
  \<^verbatim>\<open>CTCSequenceConverter\<close> and \<^verbatim>\<open>Decoder.decode\<close> of another module.
\<close>

record torch_env =
  models :: "tensor2 \<Rightarrow> bool list list option \<Rightarrow> error + (student_results \<times> teacher_results)"
  cosine_similarity :: "real list \<Rightarrow> real list \<Rightarrow> real"
  logsigmoid :: "real \<Rightarrow> real"
  log_softmax :: "real list \<Rightarrow> real list"
  ctc_loss :: "tensor3 \<Rightarrow> nat list \<Rightarrow> nat list \<Rightarrow> nat list \<Rightarrow> error + real"
  ctc_converter :: "nat list \<Rightarrow> nat list"
  decoder_decode :: "nat list \<Rightarrow> string"

section \<open>The loss\<close>

text \<open>
  Lines 204--209 of \<^verbatim>\<open>calculate_loss\<close>: the teacher's layer outputs at the indices
  of \<^verbatim>\<open>self.student_model.pred_layer_id\<close>, each transposed to (batch, time,
  feature), stacked to (batch, layer, time, feature).
\<close>

definition teacher_hiddens :: "w2v2distil \<Rightarrow> teacher_results \<Rightarrow> error + tensor4" where
  "teacher_hiddens self tr =
     bind_err (map_err (\<lambda>i. bind_err (py_index (layer_results tr) i)
                                (\<lambda>entry. Inr (transpose01 (fst entry))))
                 (pred_layer_id (student self)))
       torch_stack"

text \<open>
  Line 221: \<^verbatim>\<open>-F.logsigmoid(F.cosine_similarity(proj, target, dim=-1))\<close>. It is
  evaluated after \<^verbatim>\<open>F.l1_loss\<close> has accepted the same two tensors, which are
  broadcast against each other in the same way; the similarity is taken along the last
  dimension of the broadcast tensors.
\<close>

definition neg_logsigmoid_cos :: "torch_env \<Rightarrow> tensor4 \<Rightarrow> tensor4 \<Rightarrow> tensor3" where
  "neg_logsigmoid_cos T a b =
     bmap2 (bmap2 (bmap2 (\<lambda>p q. - logsigmoid T
        (cosine_similarity T (bmap2 (\<lambda>u v. u) p q) (bmap2 (\<lambda>u v. v) p q))))) a b"

text \<open>
  The values bound by lines 204--229: the regression terms, the cosine terms
  (\<^verbatim>\<open>sim_loss = 0\<close> and \<^verbatim>\<open>sim_layer_loss = None\<close> when the weight is not
  positive) and \<^verbatim>\<open>total_loss\<close>.
\<close>

record loss_terms =
  rec_loss :: real
  rec_layer_loss :: "real list"
  sim_loss :: real
  sim_layer_loss :: "real list option"
  total_loss :: real

definition loss_terms :: "torch_env \<Rightarrow> w2v2distil \<Rightarrow> student_results \<Rightarrow> teacher_results \<Rightarrow> error + loss_terms" where
  "loss_terms T self sr tr =
     bind_err (teacher_hiddens self tr) (\<lambda>target.
     let proj = projections sr in
     bind_err (l1_loss proj target) (\<lambda>rec.
     let w = cosine_weight (train (cfg self));
         (sim, sim_layer) =
           (if w > 0
            then (mean_all3 (neg_logsigmoid_cos T proj target),
                  Some (mean_02 (neg_logsigmoid_cos T proj target)))
            else (0, None))
     in Inr \<lparr>rec_loss = mean_all4 rec, rec_layer_loss = mean_023 rec,
              sim_loss = sim, sim_layer_loss = sim_layer,
              total_loss = mean_all4 rec + w * sim\<rparr>))"

text \<open>
  Line 231, \<^verbatim>\<open>torch.add(rec_layer_loss, sim_layer_loss)\<close>: torch adds two tensors,
  broadcast against each other, and refuses \<^verbatim>\<open>None\<close> as an argument with
  \<^verbatim>\<open>TypeError\<close>. The result is a tensor.
\<close>

definition torch_add :: "real list \<Rightarrow> real list option \<Rightarrow> error + pyval" where
  "torch_add a b =
     (case b of
        None \<Rightarrow> Inl TypeError
      | Some b' \<Rightarrow>
          bind_err (bcast (\<lambda>p q. Inr (p + q)) a b') (\<lambda>r. Inr (Tensor1 r)))"

text \<open>
  Line 256, \<^verbatim>\<open>losses.append(ctc_loss)\<close>: a Python list has the method
  \<^verbatim>\<open>append\<close>, a tensor has no attribute of that name.
\<close>

definition py_append :: "pyval \<Rightarrow> real \<Rightarrow> error + pyval" where
  "py_append obj v =
     (case obj of
        PyList xs \<Rightarrow> Inr (PyList (xs @ [v]))
      | Tensor1 xs \<Rightarrow> Inl AttributeError
      | Scalar r \<Rightarrow> Inl AttributeError)"

text \<open>
  Lines 243--247: the target from the teacher's output, one call of the converter for
  each sequence of the batch.
\<close>

definition teacher_target :: "torch_env \<Rightarrow> teacher_results \<Rightarrow> (nat list \<times> nat list) run" where
  "teacher_target T tr =
     (let predicted_ids = map (map argmax) (transpose01 (t_x tr));
          fused_tokens = map (ctc_converter T) predicted_ids
      in (replicate (length predicted_ids) CtcConverter,
          bind_err (torch_cat fused_tokens) (\<lambda>target. Inr (target, map length fused_tokens))))"

text \<open>
  Line 235, \<^verbatim>\<open>student_results['x'].log_softmax(2)\<close>, and line 252, the input
  lengths \<^verbatim>\<open>torch.full((ctc_input.shape[1],), ctc_input.shape[0])\<close>.
\<close>

definition ctc_input :: "torch_env \<Rightarrow> student_results \<Rightarrow> tensor3" where
  "ctc_input T sr = map (map (log_softmax T)) (s_x sr)"

definition input_lengths :: "tensor3 \<Rightarrow> nat list" where
  "input_lengths inp = replicate (case inp of [] \<Rightarrow> 0 | row # _ \<Rightarrow> length row) (length inp)"

text \<open>
  Lines 233--256, the branch of \<^verbatim>\<open>not self.task_agnostic\<close>: the input of the CTC
  loss, the target from the labels or from the teacher, the CTC loss, and the append to
  \<^verbatim>\<open>losses\<close>.
\<close>

definition ctc_branch ::
  "torch_env \<Rightarrow> w2v2distil \<Rightarrow> student_results \<Rightarrow> teacher_results \<Rightarrow> string list option \<Rightarrow> pyval \<Rightarrow> pyval run" where
  "ctc_branch T self sr tr labels losses =
     bind_run (emit CtcLogSoftmax) (\<lambda>_.
     bind_run (if use_gt_for_ctc (train (cfg self)) then lift (gt_target labels)
               else teacher_target T tr) (\<lambda>(target, target_lengths).
     bind_run (call CtcLoss
                 (ctc_loss T (ctc_input T sr) target (input_lengths (ctc_input T sr))
                    target_lengths)) (\<lambda>ctc.
     lift (py_append losses ctc))))"

text \<open>\<^verbatim>\<open>calculate_loss(self, student_results, teacher_results, labels=None)\<close>.\<close>

definition calculate_loss ::
  "torch_env \<Rightarrow> w2v2distil \<Rightarrow> student_results \<Rightarrow> teacher_results \<Rightarrow> string list option \<Rightarrow> (real \<times> pyval) run" where
  "calculate_loss T self sr tr labels =
     bind_run (lift (loss_terms T self sr tr)) (\<lambda>lt.
     bind_run (lift (torch_add (rec_layer_loss lt) (sim_layer_loss lt))) (\<lambda>losses.
     bind_run (if \<not> task_agnostic self then ctc_branch T self sr tr labels losses
               else ret losses) (\<lambda>losses'.
     ret (total_loss lt, losses'))))"

section \<open>The training, validation and test steps\<close>

text \<open>
  \<^verbatim>\<open>self(**batch)\<close> calls \<^verbatim>\<open>forward(self, x, padding_mask=None)\<close> with the
  entries of the batch as keyword arguments: an entry \<^verbatim>\<open>labels\<close> is an unexpected
  keyword argument, a \<^verbatim>\<open>TypeError\<close>. Otherwise the two models are run.
\<close>

definition forward :: "torch_env \<Rightarrow> batch \<Rightarrow> (student_results \<times> teacher_results) run" where
  "forward T b =
     (if b_labels b \<noteq> None then lift (Inl TypeError)
      else call Forward (models T (b_x b) (b_padding_mask b)))"

text \<open>\<^verbatim>\<open>batch['labels']\<close>.\<close>

definition batch_labels :: "batch \<Rightarrow> error + string list" where
  "batch_labels b = (case b_labels b of None \<Rightarrow> Inl (KeyError ''labels'') | Some ls \<Rightarrow> Inr ls)"

text \<open>
  The call of \<^verbatim>\<open>calculate_loss\<close> that the three steps share: with the labels of
  the batch when the teacher is not task agnostic, without labels otherwise.
\<close>

definition step_loss ::
  "torch_env \<Rightarrow> w2v2distil \<Rightarrow> batch \<Rightarrow> student_results \<Rightarrow> teacher_results \<Rightarrow> (real \<times> pyval) run" where
  "step_loss T self b sr tr =
     (if \<not> task_agnostic self
      then bind_run (lift (batch_labels b)) (\<lambda>ls. calculate_loss T self sr tr (Some ls))
      else calculate_loss T self sr tr None)"

text \<open>Decimal digits of a number, for the names \<^verbatim>\<open>f"loss{i+1}"\<close>.\<close>

fun show_nat :: "nat \<Rightarrow> string" where
  "show_nat n =
     (if n < 10 then [''0123456789'' ! n]
      else show_nat (n div 10) @ [''0123456789'' ! (n mod 10)])"

declare show_nat.simps [simp del]

text \<open>
  Lines 142--143: \<^verbatim>\<open>for i, l in enumerate(losses): self.log(f"loss{i+1}", l.item())\<close>.
  A tensor of no dimension cannot be iterated.
\<close>

definition log_losses :: "pyval \<Rightarrow> unit run" where
  "log_losses losses =
     (case losses of
        Scalar r \<Rightarrow> lift (Inl TypeError)
      | Tensor1 xs \<Rightarrow>
          (map (\<lambda>(i, l). Log (''loss'' @ show_nat (i + 1)) (Scalar l)) (enumerate 0 xs), Inr ())
      | PyList xs \<Rightarrow>
          (map (\<lambda>(i, l). Log (''loss'' @ show_nat (i + 1)) (Scalar l)) (enumerate 0 xs), Inr ()))"

text \<open>\<^verbatim>\<open>training_step(self, batch, batch_idx)\<close>: the returned value is \<^verbatim>\<open>loss\<close>.\<close>

definition training_step :: "torch_env \<Rightarrow> w2v2distil \<Rightarrow> batch \<Rightarrow> pyval run" where
  "training_step T self b =
     bind_run (forward T b) (\<lambda>(sr, tr).
     bind_run (step_loss T self b sr tr) (\<lambda>(loss, losses).
     bind_run (if monitor_losses (train (cfg self)) then log_losses losses else ret ()) (\<lambda>_.
     ret (Scalar loss))))"

text \<open>
  Lines 156--160 and 184--188: the student's \<^verbatim>\<open>encoder_out\<close> is decoded, one call
  of the decoder for each sequence, and predictions and labels are added to both metrics.
\<close>

definition decode_and_add :: "torch_env \<Rightarrow> student_results \<Rightarrow> batch \<Rightarrow> unit run" where
  "decode_and_add T sr b =
     bind_run (lift (case encoder_out sr of
                       None \<Rightarrow> Inl (KeyError ''encoder_out'')
                     | Some out \<Rightarrow> Inr out)) (\<lambda>out.
     let predicted_ids = map (map argmax) (transpose01 out) in
     bind_run (replicate (length predicted_ids) DecoderDecode,
               Inr (map (decoder_decode T) predicted_ids)) (\<lambda>predictions.
     bind_run (lift (batch_labels b)) (\<lambda>_.
     bind_run (emit (MetricAddBatch ''wer'')) (\<lambda>_.
     bind_run (lift (batch_labels b)) (\<lambda>_.
     emit (MetricAddBatch ''cer''))))))"

text \<open>\<^verbatim>\<open>validation_step(self, batch, batch_idx)\<close>: the value under \<^verbatim>\<open>"v_loss"\<close>.\<close>

definition validation_step :: "torch_env \<Rightarrow> w2v2distil \<Rightarrow> batch \<Rightarrow> pyval run" where
  "validation_step T self b =
     bind_run (forward T b) (\<lambda>(sr, tr).
     bind_run (step_loss T self b sr tr) (\<lambda>(loss, losses).
     bind_run (if \<not> task_agnostic self then decode_and_add T sr b else ret ()) (\<lambda>_.
     bind_run (emit (Log ''v_loss'' (Scalar loss))) (\<lambda>_.
     ret (Scalar loss)))))"

text \<open>
  Python's \<^verbatim>\<open>sum\<close> of the pair that \<^verbatim>\<open>calculate_loss\<close> returns:
  \<^verbatim>\<open>(0 + total_loss) + losses\<close>. A scalar tensor plus a tensor of one dimension is
  added to each element; a tensor plus a Python list is a \<^verbatim>\<open>TypeError\<close>.
\<close>

definition py_sum_pair :: "real \<times> pyval \<Rightarrow> error + pyval" where
  "py_sum_pair p =
     (case p of
        (tot, Scalar r) \<Rightarrow> Inr (Scalar (0 + tot + r))
      | (tot, Tensor1 xs) \<Rightarrow> Inr (Tensor1 (map (\<lambda>l. 0 + tot + l) xs))
      | (tot, PyList xs) \<Rightarrow> Inl TypeError)"

text \<open>
  \<^verbatim>\<open>test_step(self, batch, batch_idx)\<close>: the result of \<^verbatim>\<open>calculate_loss\<close> is
  bound to one name, \<^verbatim>\<open>losses\<close> (lines 178 and 180), and
  \<^verbatim>\<open>loss = sum(losses)\<close> (line 181) is logged and returned under \<^verbatim>\<open>"test_loss"\<close>.
\<close>

definition test_step :: "torch_env \<Rightarrow> w2v2distil \<Rightarrow> batch \<Rightarrow> pyval run" where
  "test_step T self b =
     bind_run (forward T b) (\<lambda>(sr, tr).
     bind_run (step_loss T self b sr tr) (\<lambda>losses.
     bind_run (lift (py_sum_pair losses)) (\<lambda>loss.
     bind_run (if \<not> task_agnostic self then decode_and_add T sr b else ret ()) (\<lambda>_.
     bind_run (emit (Log ''test_loss'' loss)) (\<lambda>_.
     ret loss)))))"

text \<open>
  The calls that compute a quantity of the CTC objective or of its evaluation: the CTC
  input, the conversion of the teacher's output, the CTC loss, the decoding and the
  accumulation of the error rates.
\<close>

fun ctc_related :: "event \<Rightarrow> bool" where
  "ctc_related CtcLogSoftmax = True"
| "ctc_related CtcConverter = True"
| "ctc_related CtcLoss = True"
| "ctc_related DecoderDecode = True"
| "ctc_related (MetricAddBatch m) = True"
| "ctc_related ev = False"

section \<open>A concrete batch\<close>

text \<open>
  Concrete inputs on which the methods are evaluated below: a teacher with thirteen
  entries in \<^verbatim>\<open>layer_results\<close>, a student that predicts the layers 4, 8 and 12
  for a batch of two utterances (one frame, two features), and the torch functions by
  their formulas. The student's projections are orthogonal to the teacher's outputs, so
  every cosine similarity is 0.
\<close>

definition example_teacher :: teacher_results where
  "example_teacher =
     \<lparr>t_x = [[[1, 0], [0, 1]]],
      layer_results = replicate 13 ([[[0, 1], [0, 1]]], [])\<rparr>"

definition example_student :: student_results where
  "example_student =
     \<lparr>s_x = [[[1, 0], [0, 1]]],
      projections = [[[[1, 0]], [[2, 0]], [[3, 0]]], [[[1, 0]], [[2, 0]], [[3, 0]]]],
      encoder_out = Some [[[1, 0], [0, 1]]]\<rparr>"

definition example_torch :: torch_env where
  "example_torch =
     \<lparr>models = (\<lambda>audio mask. Inr (example_student, example_teacher)),
      cosine_similarity = (\<lambda>a b. sum_list (map2 (*) a b) /
         max (sqrt (sum_list (map (\<lambda>v. v * v) a)) * sqrt (sum_list (map (\<lambda>v. v * v) b))) (1 / 10 ^ 8)),
      logsigmoid = (\<lambda>v. - ln (1 + exp (- v))),
      log_softmax = (\<lambda>vs. map (\<lambda>v. v - ln (sum_list (map exp vs))) vs),
      ctc_loss = (\<lambda>inp target input_lengths target_lengths. Inr 1),
      ctc_converter = (\<lambda>ids. filter (\<lambda>i. i \<noteq> 0) (remdups_adj ids)),
      decoder_decode = (\<lambda>ids. map (\<lambda>i. char_of (65 + i)) ids)\<rparr>"

definition example_distiller :: pydict where
  "example_distiller =
     [(''encoder_layers'', VInt 2), (''enable_tr_layer'', VBool False),
      (''type_of_tr_layer'', VStr ''fc2''), (''tr_layer_index'', VInt 0),
      (''init_conv_layers'', VBool True), (''init_encoder_layers'', VInt 2),
      (''pred_head_inter_dim'', VInt 0), (''pred_head_final_dim'', VInt 768),
      (''pred_layer_id'', VInts [4, 8, 12])]"

definition example_yaml :: yaml_cfg where
  "example_yaml =
     \<lparr>teacher_model = ''wav2vec_small.pt'',
      distiller = example_distiller,
      train = \<lparr>batch_size = 2, gpus = 1, num_epochs = 10, accumulate_grad_batches = 1,
               learning_rate = ''2e-4'', warmup_ratio = 1 / 20, cosine_weight = 1 / 2,
               monitor_losses = True, use_gt_for_ctc = True\<rparr>,
      data = \<lparr>bucketing_path = ''data/len_for_bucket'', libri_root = ''LibriSpeech'',
              train_set = [''train-clean-100''], test_set = [''test-clean'']\<rparr>\<rparr>"

definition example_self :: "bool \<Rightarrow> real \<Rightarrow> w2v2distil" where
  "example_self ta w =
     \<lparr>cfg = example_yaml\<lparr>train := (train example_yaml)\<lparr>cosine_weight := w\<rparr>\<rparr>,
      task_agnostic = ta,
      student_config = Map.empty,
      student = \<lparr>pred_layer_id = [4, 8, 12]\<rparr>,
      train_data = 100\<rparr>"

definition example_batch :: batch where
  "example_batch = \<lparr>b_x = [[0, 0], [0, 0]], b_padding_mask = None, b_labels = None\<rparr>"

text \<open>
  A concrete teacher configuration, student schema and set of collaborators for
  \<^verbatim>\<open>__init__\<close>: the loader returns a task-agnostic teacher, the student model
  takes its \<^verbatim>\<open>pred_layer_id\<close> from the configuration, and \<^verbatim>\<open>eval\<close> accepts
  the one learning rate \<^verbatim>\<open>2e-4\<close>.
\<close>

definition example_teacher_config :: pydict where
  "example_teacher_config =
     [(''encoder_layers'', VInt 12), (''encoder_embed_dim'', VInt 768),
      (''encoder_attention_heads'', VInt 12), (''final_dim'', VInt 256)]"

definition example_env :: env where
  "example_env =
     \<lparr>load_model_and_config = (\<lambda>name. Inr (example_teacher_config, True)),
      student_defaults = map_of
        [(''encoder_layers'', VInt 12), (''encoder_embed_dim'', VInt 768),
         (''encoder_attention_heads'', VInt 12), (''enable_tr_layer'', VBool True),
         (''pred_layer_id'', VInts [3, 7, 11])],
      get_all_attributes =
        [''encoder_layers'', ''encoder_embed_dim'', ''encoder_attention_heads'',
         ''enable_tr_layer'', ''type_of_tr_layer'', ''tr_layer_floor'', ''init_conv_layers'',
         ''init_encoder_layers'', ''proj_head_inter_dim'', ''proj_head_final_dim'',
         ''pred_layer_id'', ''teacher_task_agnostic''],
      dump_yaml = (\<lambda>sc. Inr ()),
      custom_student_model = (\<lambda>sc. case sc ''pred_layer_id'' of
          Some (VInts ids) \<Rightarrow> Inr \<lparr>pred_layer_id = ids\<rparr>
        | _ \<Rightarrow> Inl TypeError),
      libri_dataset = (\<lambda>sets. Inr 100),
      py_eval = (\<lambda>src. if src = ''2e-4'' then Inr (2 / 10000)
                        else Inl (External ''SyntaxError'')),
      float_mul = (\<lambda>a b. a * b)\<rparr>"

text \<open>
  The same \<^verbatim>\<open>distiller\<close> section with one more entry, a student dimension that the
  teacher's configuration also has.
\<close>

definition example_distiller_extra :: pydict where
  "example_distiller_extra = example_distiller @ [(''encoder_embed_dim'', VInt 480)]"

text \<open>The same configuration file with a learning rate that does not evaluate.\<close>

definition example_yaml_bad_lr :: yaml_cfg where
  "example_yaml_bad_lr = example_yaml\<lparr>train := (train example_yaml)\<lparr>learning_rate := ''2e-4 *''\<rparr>\<rparr>"

text \<open>The same configuration file without the last key of the \<^verbatim>\<open>distiller\<close> section.\<close>

definition example_yaml_missing_key :: yaml_cfg where
  "example_yaml_missing_key = example_yaml\<lparr>distiller := take 8 example_distiller\<rparr>"

section \<open>Properties of the target construction\<close>


lemma map_err_total: "(\<And>x. x \<in> set xs \<Longrightarrow> \<exists>y. f x = Inr y) \<Longrightarrow> \<exists>ys. map_err f xs = Inr ys"
proof (induction xs)
  case Nil
  then show ?case by simp
next
  case (Cons x xs)
  obtain y where y: "f x = Inr y" using Cons.prems by auto
  obtain ys where ys: "map_err f xs = Inr ys" using Cons by auto
  show ?case using y ys by simp
qed

lemma map_err_fails:
  "x \<in> set xs \<Longrightarrow> f x = Inl e \<Longrightarrow> \<exists>x' e'. x' \<in> set xs \<and> f x' = Inl e' \<and> map_err f xs = Inl e'"
proof (induction xs)
  case Nil
  then show ?case by simp
next
  case (Cons a xs)
  show ?case
  proof (cases "f a")
    case (Inl e0)
    then show ?thesis by auto
  next
    case (Inr b)
    with Cons.prems have "x \<in> set xs" by auto
    from Cons.IH [OF this Cons.prems(2)] obtain x' e'
      where "x' \<in> set xs" "f x' = Inl e'" "map_err f xs = Inl e'" by blast
    with Inr show ?thesis by auto
  qed
qed



lemma char_dict_keys:
  "map_of char_dict [c] \<noteq> None \<longleftrightarrow> c \<in> set alphabet_chars"
proof -
  have "map_of char_dict [c] \<noteq> None \<longleftrightarrow> [c] \<in> fst ` set char_dict"
    by (simp add: map_of_eq_None_iff)
  also have "\<dots> \<longleftrightarrow> c \<in> set alphabet_chars"
    unfolding char_dict_def alphabet_chars_def by auto
  finally show ?thesis .
qed

lemma alphabet_chars_total:
  "set label \<subseteq> set alphabet_chars \<Longrightarrow> \<exists>toks. label_tokens label = Inr toks"
proof -
  assume a: "set label \<subseteq> set alphabet_chars"
  have "\<exists>y. getitem char_dict [c] = Inr y" if "c \<in> set label" for c
  proof -
    from that a have "c \<in> set alphabet_chars" by blast
    then have "map_of char_dict [c] \<noteq> None" using char_dict_keys [of c] by blast
    then show ?thesis by (auto simp: getitem_def)
  qed
  then show ?thesis unfolding label_tokens_def by (intro map_err_total) blast
qed

lemma gt_tokens_total:
  assumes "\<forall>label\<in>set labels. set label \<subseteq> set alphabet_chars"
  shows "\<exists>toks. gt_tokens (Some labels) = Inr toks"
  unfolding gt_tokens_def using assms
  by (auto intro!: map_err_total alphabet_chars_total)

lemma label_tokens_fails:
  assumes "c \<in> set label" "c \<notin> set alphabet_chars"
  shows "\<exists>c'. c' \<in> set label \<and> c' \<notin> set alphabet_chars \<and> label_tokens label = Inl (KeyError [c'])"
proof -
  from assms(2) have "getitem char_dict [c] = Inl (KeyError [c])"
    using char_dict_keys [of c] by (auto simp: getitem_def)
  from map_err_fails [of c label "\<lambda>c. getitem char_dict [c]", OF assms(1) this] obtain x' e'
    where x': "x' \<in> set label" "getitem char_dict [x'] = Inl e'"
      "map_err (\<lambda>c. getitem char_dict [c]) label = Inl e'" by blast
  from x'(2) have "e' = KeyError [x']" "x' \<notin> set alphabet_chars"
    using char_dict_keys [of x'] by (auto simp: getitem_def split: option.splits)
  with x' show ?thesis unfolding label_tokens_def by blast
qed

lemma gt_tokens_fails:
  assumes "label \<in> set labels" "c \<in> set label" "c \<notin> set alphabet_chars"
  shows "\<exists>c'. c' \<notin> set alphabet_chars \<and> gt_tokens (Some labels) = Inl (KeyError [c'])"
proof -
  from label_tokens_fails [OF assms(2,3)] obtain c0
    where "label_tokens label = Inl (KeyError [c0])" by blast
  from map_err_fails [of label labels label_tokens, OF assms(1) this] obtain l' e'
    where l': "l' \<in> set labels" "label_tokens l' = Inl e'" "map_err label_tokens labels = Inl e'"
    by blast
  have "\<exists>c'. c' \<notin> set alphabet_chars \<and> e' = KeyError [c']"
  proof (cases "set l' \<subseteq> set alphabet_chars")
    case True
    from alphabet_chars_total [OF this] l'(2) show ?thesis by auto
  next
    case False
    then obtain d where "d \<in> set l'" "d \<notin> set alphabet_chars" by blast
    from label_tokens_fails [OF this] l'(2) show ?thesis by auto
  qed
  with l'(3) show ?thesis by (auto simp: gt_tokens_def)
qed

section \<open>Facts about runs\<close>

lemma bind_run_Inl: "bind_run (evs, Inl e) f = (evs, Inl e)"
  by (simp add: bind_run_def)

lemma bind_run_Inr: "bind_run (evs, Inr v) f = (evs @ fst (f v), snd (f v))"
  by (simp add: bind_run_def split: prod.splits)

lemma fst_bind_run:
  "fst (bind_run m f) = (case snd m of Inl e \<Rightarrow> fst m | Inr v \<Rightarrow> fst m @ fst (f v))"
  by (cases m) (auto simp: bind_run_def split: sum.splits prod.splits)

lemma snd_bind_run:
  "snd (bind_run m f) = (case snd m of Inl e \<Rightarrow> Inl e | Inr v \<Rightarrow> snd (f v))"
  by (cases m) (auto simp: bind_run_def split: sum.splits prod.splits)

lemma bind_run_lift: "bind_run (lift r) f = (case r of Inl e \<Rightarrow> ([], Inl e) | Inr v \<Rightarrow> f v)"
  by (simp add: bind_run_def lift_def split: sum.splits prod.splits)

lemma bind_run_ret: "bind_run (ret v) f = f v"
  by (simp add: bind_run_def ret_def split: prod.splits)

lemma bind_run_emit: "bind_run (emit ev) f = (ev # fst (f ()), snd (f ()))"
  by (simp add: bind_run_def emit_def split: prod.splits)

lemma bind_run_call:
  "bind_run (call ev r) f =
     (case r of Inl e \<Rightarrow> ([ev], Inl e) | Inr v \<Rightarrow> (ev # fst (f v), snd (f v)))"
  by (simp add: bind_run_def call_def split: sum.splits prod.splits)

lemmas run_simps = bind_run_lift bind_run_ret bind_run_emit bind_run_call bind_run_Inl bind_run_Inr

section \<open>Facts about the loss\<close>

lemma loss_terms_Inr:
  assumes "loss_terms T self sr tr = Inr lt"
  obtains target r where "teacher_hiddens self tr = Inr target"
    and "l1_loss (projections sr) target = Inr r"
    and "rec_loss lt = mean_all4 r" and "rec_layer_loss lt = mean_023 r"
    and "sim_loss lt = (if 0 < cosine_weight (train (cfg self))
           then mean_all3 (neg_logsigmoid_cos T (projections sr) target) else 0)"
    and "sim_layer_loss lt = (if 0 < cosine_weight (train (cfg self))
           then Some (mean_02 (neg_logsigmoid_cos T (projections sr) target)) else None)"
    and "total_loss lt = rec_loss lt + cosine_weight (train (cfg self)) * sim_loss lt"
  using assms
  by (auto simp: loss_terms_def bind_err_def Let_def split: sum.splits if_splits)

lemma cosine_disabled_raises:
  assumes "cosine_weight (train (cfg self)) \<le> 0"
  shows "calculate_loss T self sr tr labels =
     ([], Inl (case loss_terms T self sr tr of Inl e \<Rightarrow> e | Inr lt \<Rightarrow> TypeError))"
proof (cases "loss_terms T self sr tr")
  case (Inl e)
  then show ?thesis by (simp add: calculate_loss_def run_simps)
next
  case (Inr lt)
  from loss_terms_Inr [OF Inr] assms have "sim_layer_loss lt = None"
    by (auto split: if_splits)
  with Inr show ?thesis by (simp add: calculate_loss_def run_simps torch_add_def)
qed

lemma map_err_Inr_map: "map_err (\<lambda>x. Inr (f x)) xs = Inr (map f xs)"
  by (induction xs) simp_all

lemma map_err_eq_map:
  "map_err f xs = Inr r \<Longrightarrow> (\<And>x z. f x = Inr z \<Longrightarrow> z = f' x) \<Longrightarrow> r = map f' xs"
proof (induction xs arbitrary: r)
  case Nil
  then show ?case by simp
next
  case (Cons x xs)
  from Cons.prems(1) obtain z zs where z: "f x = Inr z" and zs: "map_err f xs = Inr zs"
    and r: "r = z # zs" by (auto split: sum.splits)
  from Cons.prems(2) [OF z] Cons.IH [OF zs Cons.prems(2)] r show ?case by simp
qed

lemma bcast_eq_bmap2:
  assumes "bcast g xs ys = Inr r" and g: "\<And>x y z. g x y = Inr z \<Longrightarrow> z = g' x y"
  shows "r = bmap2 g' xs ys"
proof -
  have p: "z = (case q of (x, y) \<Rightarrow> g' x y)" if "(case q of (x, y) \<Rightarrow> g x y) = Inr z" for q z
    using that g by (cases q) simp
  consider (eq) "length xs = length ys"
    | (left) "length xs \<noteq> length ys" "length xs = 1"
    | (right) "length xs \<noteq> length ys" "length xs \<noteq> 1" "length ys = 1"
    | (bad) "length xs \<noteq> length ys" "length xs \<noteq> 1" "length ys \<noteq> 1"
    by blast
  then show ?thesis
  proof cases
    case eq
    with assms(1) have "map_err (\<lambda>(x, y). g x y) (zip xs ys) = Inr r" by (simp add: bcast_def)
    from map_err_eq_map [OF this p] eq show ?thesis by (simp add: bmap2_def)
  next
    case left
    with assms(1) have "map_err (g (hd xs)) ys = Inr r" by (simp add: bcast_def)
    from map_err_eq_map [OF this g] left show ?thesis by (simp add: bmap2_def)
  next
    case right
    with assms(1) have "map_err (\<lambda>x. g x (hd ys)) xs = Inr r" by (simp add: bcast_def)
    from map_err_eq_map [OF this g] right show ?thesis by (simp add: bmap2_def)
  next
    case bad
    with assms(1) show ?thesis by (simp add: bcast_def)
  qed
qed

lemma bcast_equal_lengths:
  "length xs = length ys \<Longrightarrow> bcast (\<lambda>p q. Inr (f p q)) xs ys = Inr (map2 f xs ys)"
proof -
  assume "length xs = length ys"
  then have "bcast (\<lambda>p q. Inr (f p q)) xs ys = map_err (\<lambda>q. Inr (case q of (x, y) \<Rightarrow> f x y)) (zip xs ys)"
    by (simp add: bcast_def case_prod_unfold)
  then show ?thesis by (simp only: map_err_Inr_map)
qed

lemma l1_loss_eq_bmap2:
  assumes "l1_loss a b = Inr r"
  shows "r = bmap2 (bmap2 (bmap2 (bmap2 (\<lambda>p q. \<bar>p - q\<bar>)))) a b"
proof -
  have g1: "z = bmap2 (\<lambda>p q. \<bar>p - q\<bar>) x y"
    if "bcast (\<lambda>p q. Inr \<bar>p - q\<bar>) x y = Inr z" for x y :: "real list" and z
    using that by (rule bcast_eq_bmap2) simp
  have g2: "z = bmap2 (bmap2 (\<lambda>p q. \<bar>p - q\<bar>)) x y"
    if "bcast (bcast (\<lambda>p q. Inr \<bar>p - q\<bar>)) x y = Inr z" for x y :: "real list list" and z
    using that by (rule bcast_eq_bmap2) (rule g1)
  have g3: "z = bmap2 (bmap2 (bmap2 (\<lambda>p q. \<bar>p - q\<bar>))) x y"
    if "bcast (bcast (bcast (\<lambda>p q. Inr \<bar>p - q\<bar>))) x y = Inr z"
    for x y :: "real list list list" and z
    using that by (rule bcast_eq_bmap2) (rule g2)
  from assms show ?thesis unfolding l1_loss_def by (rule bcast_eq_bmap2) (rule g3)
qed

lemma length_bmap2:
  "length (bmap2 F xs ys) =
     (if length xs = length ys then length xs else if length xs = 1 then length ys
      else if length ys = 1 then length xs else 0)"
  by (simp add: bmap2_def)

lemma map_length_bmap2: "map length (bmap2 H a b) = bmap2 (\<lambda>x y. length (H x y)) a b"
  by (simp add: bmap2_def case_prod_unfold)

lemma map_length_bmap2_rows:
  "map length (bmap2 (bmap2 F) a b) = map length (bmap2 (bmap2 G) a b)"
  by (simp only: map_length_bmap2 length_bmap2)

lemma length_transpose_map_length:
  assumes "map length xs = map length ys"
  shows "length (transpose xs) = length (transpose ys)"
proof -
  have f: "foldr (\<lambda>r. max (length r)) zs 0 = foldr max (map length zs) 0" for zs :: "'c list list"
    by (induction zs) auto
  have "length (transpose xs) = foldr max (map length xs) 0"
    by (simp only: length_transpose f)
  also have "\<dots> = foldr max (map length ys) 0"
    by (simp only: assms)
  also have "\<dots> = length (transpose ys)"
    by (simp only: length_transpose f)
  finally show ?thesis .
qed

lemma layer_losses_same_length:
  assumes "l1_loss a b = Inr r"
  shows "length (mean_023 r) = length (mean_02 (neg_logsigmoid_cos T a b))"
proof -
  note r = l1_loss_eq_bmap2 [OF assms]
  have "map length r = map length (neg_logsigmoid_cos T a b)"
    unfolding r neg_logsigmoid_cos_def by (rule map_length_bmap2_rows)
  from length_transpose_map_length [OF this] show ?thesis
    by (simp add: mean_023_def mean_02_def transpose01_def)
qed

lemma torch_add_layer_losses:
  assumes "loss_terms T self sr tr = Inr lt" "0 < cosine_weight (train (cfg self))"
  shows "\<exists>sl. sim_layer_loss lt = Some sl \<and> length sl = length (rec_layer_loss lt) \<and>
     torch_add (rec_layer_loss lt) (sim_layer_loss lt) = Inr (Tensor1 (map2 (+) (rec_layer_loss lt) sl))"
proof -
  from loss_terms_Inr [OF assms(1)] obtain target r where
    l1: "l1_loss (projections sr) target = Inr r" and rl: "rec_layer_loss lt = mean_023 r"
    and sl: "sim_layer_loss lt = (if 0 < cosine_weight (train (cfg self))
           then Some (mean_02 (neg_logsigmoid_cos T (projections sr) target)) else None)"
    by blast
  from sl assms(2) have s: "sim_layer_loss lt = Some (mean_02 (neg_logsigmoid_cos T (projections sr) target))"
    by simp
  from layer_losses_same_length [OF l1, of T] rl
  have "length (rec_layer_loss lt) = length (mean_02 (neg_logsigmoid_cos T (projections sr) target))"
    by simp
  with s show ?thesis by (simp add: torch_add_def bcast_equal_lengths bind_err_def)
qed

lemma torch_add_Tensor1: "torch_add a b = Inr v \<Longrightarrow> \<exists>xs. v = Tensor1 xs"
  by (auto simp: torch_add_def bind_err_def split: option.splits sum.splits)

lemma ctc_branch_tensor_raises: "isl (snd (ctc_branch T self sr tr labels (Tensor1 xs)))"
  by (auto simp: ctc_branch_def snd_bind_run Let_def emit_def lift_def call_def py_append_def
      split: sum.splits prod.splits)

lemma calculate_loss_not_agnostic_raises:
  assumes "\<not> task_agnostic self"
  shows "isl (snd (calculate_loss T self sr tr labels))"
proof (cases "loss_terms T self sr tr")
  case (Inl e)
  then show ?thesis by (simp add: calculate_loss_def run_simps)
next
  case (Inr lt)
  show ?thesis
  proof (cases "torch_add (rec_layer_loss lt) (sim_layer_loss lt)")
    case (Inl e)
    with Inr show ?thesis by (simp add: calculate_loss_def run_simps)
  next
    case (Inr v)
    from torch_add_Tensor1 [OF this] obtain xs where "v = Tensor1 xs" by blast
    with Inr \<open>loss_terms T self sr tr = Inr lt\<close> assms
      ctc_branch_tensor_raises [of T self sr tr labels xs]
    show ?thesis
      by (auto simp: calculate_loss_def run_simps snd_bind_run split: sum.splits)
  qed
qed

lemma calculate_loss_task_agnostic:
  assumes "task_agnostic self" "loss_terms T self sr tr = Inr lt" "0 < cosine_weight (train (cfg self))"
  shows "\<exists>sl. sim_layer_loss lt = Some sl \<and> length sl = length (rec_layer_loss lt) \<and>
    calculate_loss T self sr tr labels =
      ([], Inr (total_loss lt, Tensor1 (map2 (+) (rec_layer_loss lt) sl)))"
proof -
  from torch_add_layer_losses [OF assms(2,3)] obtain sl where
    "sim_layer_loss lt = Some sl" "length sl = length (rec_layer_loss lt)"
    "torch_add (rec_layer_loss lt) (sim_layer_loss lt) = Inr (Tensor1 (map2 (+) (rec_layer_loss lt) sl))"
    by blast
  with assms show ?thesis by (simp add: calculate_loss_def run_simps ret_def)
qed

lemma calculate_loss_returns:
  assumes "calculate_loss T self sr tr labels = (evs, Inr (tot, losses))"
  shows "task_agnostic self \<and> 0 < cosine_weight (train (cfg self)) \<and> evs = [] \<and>
     (\<exists>lt sl. loss_terms T self sr tr = Inr lt \<and> tot = total_loss lt \<and>
        sim_layer_loss lt = Some sl \<and> losses = Tensor1 (map2 (+) (rec_layer_loss lt) sl))"
proof -
  have ta: "task_agnostic self"
    using calculate_loss_not_agnostic_raises [of self T sr tr labels] assms by auto
  have w: "0 < cosine_weight (train (cfg self))"
    using cosine_disabled_raises [of self T sr tr labels] assms by (cases "0 < cosine_weight (train (cfg self))") auto
  from assms obtain lt where lt: "loss_terms T self sr tr = Inr lt"
    by (cases "loss_terms T self sr tr") (auto simp: calculate_loss_def run_simps)
  from calculate_loss_task_agnostic [OF ta lt w, of labels] assms ta w lt show ?thesis by auto
qed

lemma l1_loss_broadcast_example:
  "l1_loss [[[[1, 0]]], [[[2, 0]]]] [[[[0, 1]], [[0, 3]]], [[[0, 1]], [[0, 3]]]] =
     Inr [[[[1, 1]], [[1, 3]]], [[[2, 1]], [[2, 3]]]]"
  "l1_loss [[[[1, 0]], [[1, 0]], [[1, 0]]]] [[[[0, 1]], [[0, 3]]]] = Inl RuntimeError"
  by (simp_all add: l1_loss_def bcast_def)

lemma example_teacher_hiddens:
  "pred_layer_id (student self) = [4, 8, 12] \<Longrightarrow>
   teacher_hiddens self example_teacher =
     Inr [[[[0, 1]], [[0, 1]], [[0, 1]]], [[[0, 1]], [[0, 1]], [[0, 1]]]]"
  by (simp add: teacher_hiddens_def example_teacher_def bind_err_def
      py_index_def transpose01_def torch_stack_def nth_replicate)

lemma example_neg_logsigmoid_cos:
  "neg_logsigmoid_cos example_torch
     [[[[1, 0]], [[2, 0]], [[3, 0]]], [[[1, 0]], [[2, 0]], [[3, 0]]]]
     [[[[0, 1]], [[0, 1]], [[0, 1]]], [[[0, 1]], [[0, 1]], [[0, 1]]]] =
   [[[ln 2], [ln 2], [ln 2]], [[ln 2], [ln 2], [ln 2]]]"
  by (simp add: neg_logsigmoid_cos_def bmap2_def example_torch_def)

lemma example_loss_terms_disabled:
  "loss_terms example_torch (example_self ta 0) example_student example_teacher =
     Inr \<lparr>rec_loss = 3 / 2, rec_layer_loss = [1, 3 / 2, 2], sim_loss = 0,
          sim_layer_loss = None, total_loss = 3 / 2\<rparr>"
  by (simp add: loss_terms_def example_teacher_hiddens bind_err_def example_student_def
      l1_loss_def bcast_def mean_all4_def mean_023_def mean_def transpose01_def example_self_def
      example_yaml_def)

lemma example_loss_terms_half:
  "loss_terms example_torch (example_self ta (1 / 2)) example_student example_teacher =
     Inr \<lparr>rec_loss = 3 / 2, rec_layer_loss = [1, 3 / 2, 2], sim_loss = ln 2,
          sim_layer_loss = Some [ln 2, ln 2, ln 2], total_loss = 3 / 2 + 1 / 2 * ln 2\<rparr>"
  by (simp add: loss_terms_def example_teacher_hiddens bind_err_def example_neg_logsigmoid_cos
      l1_loss_def bcast_def example_student_def Let_def mean_all4_def mean_all3_def mean_02_def
      mean_023_def mean_def transpose01_def example_self_def example_yaml_def)

section \<open>Facts about the steps\<close>

lemma forward_returns:
  assumes "forward T b = (evs, Inr (sr, tr))"
  shows "b_labels b = None \<and> evs = [Forward] \<and> models T (b_x b) (b_padding_mask b) = Inr (sr, tr)"
  using assms by (auto simp: forward_def lift_def call_def split: if_splits)

lemma forward_events: "set (fst (forward T b)) \<subseteq> {Forward}"
  by (auto simp: forward_def lift_def call_def)

lemma step_loss_task_agnostic:
  "task_agnostic self \<Longrightarrow> step_loss T self b sr tr = calculate_loss T self sr tr None"
  by (simp add: step_loss_def)

lemma calculate_loss_no_events:
  assumes "task_agnostic self"
  shows "fst (calculate_loss T self sr tr labels) = []"
  using assms
  by (auto simp: calculate_loss_def fst_bind_run lift_def ret_def split: sum.splits)

lemma step_loss_returns:
  assumes "step_loss T self b sr tr = (evs, Inr (tot, losses))"
  shows "task_agnostic self \<and> evs = [] \<and>
     calculate_loss T self sr tr None = ([], Inr (tot, losses)) \<and> (\<exists>ls. losses = Tensor1 ls)"
proof -
  have ta: "task_agnostic self"
  proof (rule ccontr)
    assume n: "\<not> task_agnostic self"
    show False
    proof (cases "batch_labels b")
      case (Inl e)
      with n assms show False by (simp add: step_loss_def run_simps)
    next
      case (Inr ls)
      with n assms have "calculate_loss T self sr tr (Some ls) = (evs, Inr (tot, losses))"
        by (simp add: step_loss_def run_simps)
      with calculate_loss_not_agnostic_raises [OF n, of T sr tr "Some ls"] show False by simp
    qed
  qed
  with assms have c: "calculate_loss T self sr tr None = (evs, Inr (tot, losses))"
    by (simp add: step_loss_def)
  from calculate_loss_returns [OF c] have "evs = []" "\<exists>ls. losses = Tensor1 ls" by auto
  with ta c show ?thesis by simp
qed

lemma log_losses_events: "ev \<in> set (fst (log_losses l)) \<Longrightarrow> \<not> ctc_related ev"
  by (cases l) (auto simp: log_losses_def lift_def)

lemma bind_run_events:
  assumes "ev \<in> set (fst (bind_run m f))"
    and "\<And>e. e \<in> set (fst m) \<Longrightarrow> P e"
    and "\<And>v e. snd m = Inr v \<Longrightarrow> e \<in> set (fst (f v)) \<Longrightarrow> P e"
  shows "P ev"
  using assms by (cases "snd m") (auto simp: fst_bind_run)

lemma forward_not_ctc: "e \<in> set (fst (forward T b)) \<Longrightarrow> \<not> ctc_related e"
  using forward_events [of T b] by auto

lemma training_step_events:
  assumes "task_agnostic self" "ev \<in> set (fst (training_step T self b))"
  shows "\<not> ctc_related ev"
  using assms(2) unfolding training_step_def
proof (rule bind_run_events, goal_cases)
  case (1 e)
  then show ?case by (rule forward_not_ctc)
next
  case (2 v e)
  obtain sr tr where v: "v = (sr, tr)" by (cases v)
  from 2(2) show ?case unfolding v prod.case
  proof (rule bind_run_events, goal_cases)
    case (1 e')
    with assms(1) show ?case by (simp add: step_loss_task_agnostic calculate_loss_no_events)
  next
    case (2 w e')
    obtain loss losses where w: "w = (loss, losses)" by (cases w)
    from 2(2) show ?case unfolding w prod.case
    proof (rule bind_run_events, goal_cases)
      case (1 e'')
      then show ?case by (auto simp: ret_def dest: log_losses_events split: if_splits)
    next
      case (2 u e'')
      then show ?case by (simp add: ret_def)
    qed
  qed
qed

lemma validation_step_events:
  assumes "task_agnostic self" "ev \<in> set (fst (validation_step T self b))"
  shows "\<not> ctc_related ev"
  using assms(2) unfolding validation_step_def
proof (rule bind_run_events, goal_cases)
  case (1 e)
  then show ?case by (rule forward_not_ctc)
next
  case (2 v e)
  obtain sr tr where v: "v = (sr, tr)" by (cases v)
  from 2(2) show ?case unfolding v prod.case
  proof (rule bind_run_events, goal_cases)
    case (1 e')
    with assms(1) show ?case by (simp add: step_loss_task_agnostic calculate_loss_no_events)
  next
    case (2 w e')
    obtain loss losses where w: "w = (loss, losses)" by (cases w)
    from 2(2) assms(1) show ?case unfolding w prod.case
      by (auto simp: run_simps ret_def emit_def)
  qed
qed

lemma test_step_events:
  assumes "task_agnostic self" "ev \<in> set (fst (test_step T self b))"
  shows "\<not> ctc_related ev"
  using assms(2) unfolding test_step_def
proof (rule bind_run_events, goal_cases)
  case (1 e)
  then show ?case by (rule forward_not_ctc)
next
  case (2 v e)
  obtain sr tr where v: "v = (sr, tr)" by (cases v)
  from 2(2) show ?case unfolding v prod.case
  proof (rule bind_run_events, goal_cases)
    case (1 e')
    with assms(1) show ?case by (simp add: step_loss_task_agnostic calculate_loss_no_events)
  next
    case (2 w e')
    from 2(2) assms(1) show ?case
      by (auto simp: run_simps ret_def emit_def split: sum.splits)
  qed
qed

lemma example_calculate_loss:
  "calculate_loss example_torch (example_self True (1 / 2)) example_student example_teacher None =
     ([], Inr (3 / 2 + 1 / 2 * ln 2, Tensor1 [1 + ln 2, 3 / 2 + ln 2, 2 + ln 2]))"
proof -
  have ta: "task_agnostic (example_self True (1 / 2))"
    and w: "0 < cosine_weight (train (cfg (example_self True (1 / 2))))"
    by (simp_all add: example_self_def example_yaml_def)
  from calculate_loss_task_agnostic [OF ta example_loss_terms_half [of True] w, of None]
  show ?thesis by simp
qed

lemma example_forward:
  "forward example_torch example_batch = ([Forward], Inr (example_student, example_teacher))"
  by (simp add: forward_def example_batch_def example_torch_def call_def)

lemma example_step_loss:
  "step_loss example_torch (example_self True (1 / 2)) example_batch example_student example_teacher =
     ([], Inr (3 / 2 + 1 / 2 * ln 2, Tensor1 [1 + ln 2, 3 / 2 + ln 2, 2 + ln 2]))"
  by (simp add: step_loss_def example_calculate_loss) (simp add: example_self_def)

lemma show_nat_digits:
  "show_nat (Suc 0) = ''1''" "show_nat (Suc (Suc 0)) = ''2''" "show_nat (Suc (Suc (Suc 0))) = ''3''"
  by (simp_all add: show_nat.simps)

lemma example_training_step:
  "training_step example_torch (example_self True (1 / 2)) example_batch =
     ([Forward, Log ''loss1'' (Scalar (1 + ln 2)), Log ''loss2'' (Scalar (3 / 2 + ln 2)),
       Log ''loss3'' (Scalar (2 + ln 2))],
      Inr (Scalar (3 / 2 + 1 / 2 * ln 2)))"
proof -
  have m: "monitor_losses (train (cfg (example_self True (1 / 2))))"
    by (simp add: example_self_def example_yaml_def)
  have l: "log_losses (Tensor1 [1 + ln 2, 3 / 2 + ln 2, 2 + ln 2]) =
     ([Log ''loss1'' (Scalar (1 + ln 2)), Log ''loss2'' (Scalar (3 / 2 + ln 2)),
       Log ''loss3'' (Scalar (2 + ln 2))], Inr ())"
    by (simp add: log_losses_def show_nat_digits)
  show ?thesis
    by (simp add: training_step_def example_forward example_step_loss bind_run_Inr bind_run_ret m l ret_def)
qed

lemma example_validation_step:
  "validation_step example_torch (example_self True (1 / 2)) example_batch =
     ([Forward, Log ''v_loss'' (Scalar (3 / 2 + 1 / 2 * ln 2))],
      Inr (Scalar (3 / 2 + 1 / 2 * ln 2)))"
proof -
  have ta: "task_agnostic (example_self True (1 / 2))"
    by (simp add: example_self_def)
  show ?thesis
    by (simp add: validation_step_def example_forward example_step_loss bind_run_Inr
        bind_run_ret bind_run_emit ta ret_def)
qed

lemma example_test_step:
  "test_step example_torch (example_self True (1 / 2)) example_batch =
     ([Forward, Log ''test_loss''
         (Tensor1 [5 / 2 + 3 / 2 * ln 2, 3 + 3 / 2 * ln 2, 7 / 2 + 3 / 2 * ln 2])],
      Inr (Tensor1 [5 / 2 + 3 / 2 * ln 2, 3 + 3 / 2 * ln 2, 7 / 2 + 3 / 2 * ln 2]))"
proof -
  have ta: "task_agnostic (example_self True (1 / 2))"
    by (simp add: example_self_def)
  have s: "py_sum_pair (3 / 2 + 1 / 2 * ln 2, Tensor1 [1 + ln 2, 3 / 2 + ln 2, 2 + ln 2]) =
     Inr (Tensor1 [5 / 2 + 3 / 2 * ln 2, 3 + 3 / 2 * ln 2, 7 / 2 + 3 / 2 * ln 2])"
    by (simp add: py_sum_pair_def)
  show ?thesis
    by (simp add: test_step_def example_forward example_step_loss bind_run_Inr
        bind_run_ret bind_run_emit bind_run_lift py_sum_pair_def ta ret_def)
qed

section \<open>Facts about the configuration\<close>

lemma copy_teacher_attrs_total:
  "set ks \<subseteq> fst ` set tc \<Longrightarrow> \<exists>sc'. copy_teacher_attrs tk tc ks sc = Inr sc'"
proof (induction ks arbitrary: sc)
  case Nil
  then show ?case by simp
next
  case (Cons k ks)
  from Cons.prems have "k \<in> fst ` set tc" by simp
  then obtain v where v: "map_of tc k = Some v"
    by (metis map_of_eq_None_iff not_Some_eq)
  from Cons.prems have "set ks \<subseteq> fst ` set tc" by simp
  from Cons.IH [OF this] v show ?case by (simp add: getattr_def)
qed

lemma copy_teacher_attrs_Inr:
  "copy_teacher_attrs tk tc ks sc = Inr sc' \<Longrightarrow>
   sc' k = (if k \<in> set tk \<and> k \<in> set ks then map_of tc k else sc k)"
proof (induction ks arbitrary: sc)
  case Nil
  then show ?case by simp
next
  case (Cons a ks)
  show ?case
  proof (cases "a \<in> set tk")
    case False
    with Cons.prems have "copy_teacher_attrs tk tc ks sc = Inr sc'" by simp
    from Cons.IH [OF this] False show ?thesis by auto
  next
    case True
    with Cons.prems obtain v where v: "map_of tc a = Some v"
      and r: "copy_teacher_attrs tk tc ks (sc(a \<mapsto> v)) = Inr sc'"
      by (auto simp: getattr_def split: option.splits)
    from Cons.IH [OF r] True v show ?thesis by auto
  qed
qed

lemma assign_from_Inr:
  "assign_from ovs d sc = Inr sc' \<Longrightarrow> distinct (map fst ovs) \<Longrightarrow>
   (\<forall>(attr, key)\<in>set ovs. sc' attr = map_of d key \<and> map_of d key \<noteq> None) \<and>
   (\<forall>a. a \<notin> fst ` set ovs \<longrightarrow> sc' a = sc a)"
proof (induction ovs arbitrary: sc)
  case Nil
  then show ?case by simp
next
  case (Cons p ovs)
  obtain attr key where p: "p = (attr, key)" by (cases p)
  from Cons.prems(1) p obtain v where v: "map_of d key = Some v"
    and r: "assign_from ovs d (sc(attr \<mapsto> v)) = Inr sc'"
    by (auto simp: getitem_def split: option.splits)
  from Cons.prems(2) p have d: "distinct (map fst ovs)" and n: "attr \<notin> fst ` set ovs" by auto
  from Cons.IH [OF r d] have
    ih1: "\<forall>(attr, key)\<in>set ovs. sc' attr = map_of d key \<and> map_of d key \<noteq> None"
    and ih2: "\<forall>a. a \<notin> fst ` set ovs \<longrightarrow> sc' a = (sc(attr \<mapsto> v)) a" by auto
  from ih2 n have "sc' attr = Some v" by simp
  with ih1 ih2 v p show ?case by auto
qed

lemma resolve_student_config_Inr:
  assumes "resolve_student_config defaults tk tc ta d = Inr sc"
  shows "(\<forall>(attr, key)\<in>set student_overrides. sc attr = map_of d key \<and> map_of d key \<noteq> None) \<and>
     sc ''teacher_task_agnostic'' = Some (VBool ta) \<and>
     (\<forall>a. a \<notin> fst ` set student_overrides \<and> a \<noteq> ''teacher_task_agnostic'' \<longrightarrow>
        sc a = (if a \<in> set tk \<and> a \<in> fst ` set tc then map_of tc a else defaults a))"
proof -
  from assms obtain sc0 sc1 where c: "copy_teacher_attrs tk tc (map fst tc) defaults = Inr sc0"
    and a: "assign_from student_overrides d sc0 = Inr sc1"
    and s: "sc = sc1(''teacher_task_agnostic'' \<mapsto> VBool ta)"
    by (auto simp: resolve_student_config_def update_student_config_def bind_err_def
        split: sum.splits)
  have dist: "distinct (map fst student_overrides)"
    by (simp add: student_overrides_def)
  have nt: "''teacher_task_agnostic'' \<notin> fst ` set student_overrides"
    by (simp add: student_overrides_def)
  from assign_from_Inr [OF a dist] have
    a1: "\<forall>(attr, key)\<in>set student_overrides. sc1 attr = map_of d key \<and> map_of d key \<noteq> None"
    and a2: "\<forall>a. a \<notin> fst ` set student_overrides \<longrightarrow> sc1 a = sc0 a" by auto
  have p1: "\<forall>(attr, key)\<in>set student_overrides. sc attr = map_of d key \<and> map_of d key \<noteq> None"
  proof (clarify)
    fix attr key assume m: "(attr, key) \<in> set student_overrides"
    then have "fst (attr, key) \<in> fst ` set student_overrides" by (rule imageI)
    then have "attr \<in> fst ` set student_overrides" by simp
    with nt have "attr \<noteq> ''teacher_task_agnostic''" by blast
    with a1 m s show "sc attr = map_of d key \<and> map_of d key \<noteq> None" by auto
  qed
  have p3: "sc a = (if a \<in> set tk \<and> a \<in> fst ` set tc then map_of tc a else defaults a)"
    if "a \<notin> fst ` set student_overrides \<and> a \<noteq> ''teacher_task_agnostic''" for a
    using that a2 s copy_teacher_attrs_Inr [OF c, of a] by auto
  from p1 p3 s show ?thesis by auto
qed

section \<open>Facts about the construction\<close>

lemma assign_from_total:
  "\<forall>k\<in>snd ` set ovs. map_of d k \<noteq> None \<Longrightarrow> \<exists>sc'. assign_from ovs d sc = Inr sc'"
proof (induction ovs arbitrary: sc)
  case Nil
  then show ?case by simp
next
  case (Cons p ovs)
  obtain attr key where p: "p = (attr, key)" by (cases p)
  from Cons.prems p obtain v where v: "map_of d key = Some v" by auto
  from Cons.prems have "\<forall>k\<in>snd ` set ovs. map_of d k \<noteq> None" by auto
  from Cons.IH [OF this] obtain sc' where r: "assign_from ovs d (sc(attr \<mapsto> v)) = Inr sc'"
    by blast
  have "assign_from (p # ovs) d sc = assign_from ovs d (sc(attr \<mapsto> v))"
    using v p by (simp add: getitem_def)
  with r show ?case by (simp only:) blast
qed

lemma resolve_student_config_total:
  assumes "\<forall>k\<in>snd ` set student_overrides. map_of d k \<noteq> None"
  shows "\<exists>sc. resolve_student_config defaults tk tc ta d = Inr sc"
proof -
  from copy_teacher_attrs_total [of "map fst tc" tc tk defaults]
  obtain sc0 where sc0: "copy_teacher_attrs tk tc (map fst tc) defaults = Inr sc0" by auto
  from assign_from_total [OF assms, of sc0] obtain sc1
    where "assign_from student_overrides d sc0 = Inr sc1" by blast
  with sc0 show ?thesis
    by (simp add: resolve_student_config_def update_student_config_def bind_err_def)
qed

lemma assign_from_first_missing:
  "find (\<lambda>k. map_of d k = None) (map snd ovs) = Some k \<Longrightarrow>
   assign_from ovs d sc = Inl (KeyError k)"
proof (induction ovs arbitrary: sc)
  case Nil
  then show ?case by simp
next
  case (Cons p ovs)
  obtain attr key where p: "p = (attr, key)" by (cases p)
  show ?case
  proof (cases "map_of d key")
    case None
    with Cons.prems p show ?thesis by (simp add: getitem_def)
  next
    case (Some v)
    with Cons.prems p have "find (\<lambda>k. map_of d k = None) (map snd ovs) = Some k" by simp
    from Cons.IH [OF this] have r: "assign_from ovs d (sc(attr \<mapsto> v)) = Inl (KeyError k)" .
    have "assign_from (p # ovs) d sc = assign_from ovs d (sc(attr \<mapsto> v))"
      using Some p by (simp add: getitem_def)
    with r show ?thesis by (simp only:)
  qed
qed

lemma first_missing_exists:
  assumes "key \<in> set required_keys" "map_of d key = None"
  shows "\<exists>k. find (\<lambda>k. map_of d k = None) required_keys = Some k \<and>
     k \<in> set required_keys \<and> map_of d k = None"
proof (cases "find (\<lambda>k. map_of d k = None) required_keys")
  case None
  with assms show ?thesis by (auto simp: find_None_iff)
next
  case (Some k)
  then show ?thesis by (auto simp: find_Some_iff)
qed

lemma update_student_config_first_missing:
  "find (\<lambda>k. map_of d k = None) required_keys = Some k \<Longrightarrow>
   update_student_config ta sc d = Inl (KeyError k)"
  unfolding required_keys_def
  by (simp add: update_student_config_def bind_err_def assign_from_first_missing)

lemma resolve_student_config_first_missing:
  assumes "find (\<lambda>k. map_of d k = None) required_keys = Some k"
  shows "resolve_student_config defaults tk tc ta d = Inl (KeyError k)"
proof -
  from copy_teacher_attrs_total [of "map fst tc" tc tk defaults]
  obtain sc0 where sc0: "copy_teacher_attrs tk tc (map fst tc) defaults = Inr sc0" by auto
  with update_student_config_first_missing [OF assms, of ta sc0] show ?thesis
    by (simp add: resolve_student_config_def bind_err_def)
qed

lemma init_load_fails:
  "load_model_and_config X (teacher_model yaml) = Inl e \<Longrightarrow>
   init X yaml = ([LoadMetric ''wer'', LoadMetric ''cer'', LoadTeacher (teacher_model yaml)], Inl e)"
  by (simp add: init_def run_simps)

lemma init_resolve_fails:
  "load_model_and_config X (teacher_model yaml) = Inr (tc, ta) \<Longrightarrow>
   resolve_student_config (student_defaults X) (get_all_attributes X) tc ta (distiller yaml) = Inl e \<Longrightarrow>
   init X yaml =
     ([LoadMetric ''wer'', LoadMetric ''cer'', LoadTeacher (teacher_model yaml), FreezeTeacher], Inl e)"
  by (simp add: init_def run_simps)

lemma init_trace_prefix: "\<exists>n. fst (init X yaml) = take n (init_events yaml)"
proof -
  have t: "\<exists>n. xs = take n (init_events yaml)"
    if "xs \<in> {take 3 (init_events yaml), take 4 (init_events yaml), take 5 (init_events yaml),
        take 6 (init_events yaml), take 7 (init_events yaml), take 8 (init_events yaml),
        take 9 (init_events yaml)}" for xs
    using that by auto
  show ?thesis
    by (rule t) (auto simp: init_def run_simps ret_def init_events_def split: sum.splits prod.splits)
qed

lemma init_returns:
  assumes "init X yaml = (evs, Inr self)"
  shows "evs = init_events yaml \<and> cfg self = yaml"
  using assms
  by (auto simp: init_def run_simps ret_def init_events_def split: sum.splits prod.splits)

lemma example_env_calls:
  "load_model_and_config example_env name = Inr (example_teacher_config, True)"
  "dump_yaml example_env sc = Inr ()"
  "libri_dataset example_env sets = Inr 100"
  "sc ''pred_layer_id'' = Some (VInts ids) \<Longrightarrow>
     custom_student_model example_env sc = Inr \<lparr>pred_layer_id = ids\<rparr>"
  by (simp_all add: example_env_def)

lemma example_distiller_keys:
  "\<forall>k\<in>snd ` set student_overrides. map_of example_distiller k \<noteq> None"
  "\<forall>k\<in>snd ` set student_overrides. map_of example_distiller_extra k \<noteq> None"
  by (simp_all add: student_overrides_def example_distiller_extra_def example_distiller_def)

lemma example_init:
  assumes "distiller yaml = example_distiller"
  shows "\<exists>self. init example_env yaml = (init_events yaml, Inr self) \<and> cfg self = yaml \<and>
     task_agnostic self \<and> student self = \<lparr>pred_layer_id = [4, 8, 12]\<rparr>"
proof -
  from resolve_student_config_total [OF example_distiller_keys(1)]
  obtain sc where r: "resolve_student_config (student_defaults example_env)
      (get_all_attributes example_env) example_teacher_config True example_distiller = Inr sc"
    by blast
  have "(''pred_layer_id'', ''pred_layer_id'') \<in> set student_overrides"
    by (simp add: student_overrides_def)
  with resolve_student_config_Inr [OF r]
  have "sc ''pred_layer_id'' = map_of example_distiller ''pred_layer_id''" by blast
  then have "sc ''pred_layer_id'' = Some (VInts [4, 8, 12])"
    by (simp add: example_distiller_def)
  from example_env_calls(4) [of sc "[4, 8, 12]", OF this]
  have c: "custom_student_model example_env sc = Inr \<lparr>pred_layer_id = [4, 8, 12]\<rparr>" .
  from r c assms show ?thesis
    by (simp add: init_def run_simps ret_def init_events_def example_env_calls(1,2,3))
qed

lemma configure_optimizers_eval_fails:
  "py_eval X (learning_rate (train (cfg self))) = Inl e \<Longrightarrow>
   configure_optimizers X self = ([EvalLearningRate (learning_rate (train (cfg self)))], Inl e)"
  by (simp add: configure_optimizers_def Let_def run_simps)

lemma main_fit_eval_fails:
  assumes "init X yaml = (evs, Inr self)" "py_eval X (learning_rate (train yaml)) = Inl e"
  shows "main_fit X yaml = (evs @ [EvalLearningRate (learning_rate (train yaml))], Inl e)"
proof -
  from init_returns [OF assms(1)] have c: "cfg self = yaml" by simp
  with assms(2) have "py_eval X (learning_rate (train (cfg self))) = Inl e" by simp
  from configure_optimizers_eval_fails [OF this] c assms(1) show ?thesis
    by (simp add: main_fit_def bind_run_Inr bind_run_Inl)
qed

lemma init_never_evaluates: "EvalLearningRate s \<notin> set (fst (init X yaml))"
proof -
  from init_trace_prefix [of X yaml] obtain n where "fst (init X yaml) = take n (init_events yaml)"
    by blast
  moreover have "EvalLearningRate s \<notin> set (init_events yaml)"
    by (simp add: init_events_def)
  ultimately show ?thesis by (metis in_set_takeD)
qed

lemma example_main_fit_bad_lr:
  "main_fit example_env example_yaml_bad_lr =
     ([LoadMetric ''wer'', LoadMetric ''cer'', LoadTeacher ''wav2vec_small.pt'', FreezeTeacher,
       DumpConfig, ConstructStudent, BuildDataset [''train-clean-100''],
       BuildDataset [''dev-clean''], BuildDataset [''test-clean''],
       EvalLearningRate ''2e-4 *''],
      Inl (External ''SyntaxError''))"
proof -
  have d: "distiller example_yaml_bad_lr = example_distiller"
    by (simp add: example_yaml_bad_lr_def example_yaml_def)
  from example_init [OF d] obtain self
    where i: "init example_env example_yaml_bad_lr = (init_events example_yaml_bad_lr, Inr self)"
    by blast
  have e: "py_eval example_env (learning_rate (train example_yaml_bad_lr)) = Inl (External ''SyntaxError'')"
    by (simp add: example_yaml_bad_lr_def example_yaml_def example_env_def)
  from main_fit_eval_fails [OF i e] show ?thesis
    by (simp add: init_events_def example_yaml_bad_lr_def example_yaml_def)
qed

lemma example_init_missing_key:
  "init example_env example_yaml_missing_key =
     ([LoadMetric ''wer'', LoadMetric ''cer'', LoadTeacher ''wav2vec_small.pt'', FreezeTeacher],
      Inl (KeyError ''pred_layer_id''))"
proof -
  have f: "find (\<lambda>k. map_of (distiller example_yaml_missing_key) k = None) required_keys =
      Some ''pred_layer_id''"
    by (simp add: required_keys_def student_overrides_def example_yaml_missing_key_def
        example_yaml_def example_distiller_def)
  from init_resolve_fails [OF example_env_calls(1) resolve_student_config_first_missing [OF f]]
  show ?thesis by (simp add: example_yaml_missing_key_def example_yaml_def)
qed

lemma example_resolve_extra:
  "\<not> isl (resolve_student_config (student_defaults example_env) (get_all_attributes example_env)
       example_teacher_config True example_distiller_extra) \<and>
   projr (resolve_student_config (student_defaults example_env) (get_all_attributes example_env)
       example_teacher_config True example_distiller_extra) ''encoder_embed_dim'' = Some (VInt 768) \<and>
   projr (resolve_student_config (student_defaults example_env) (get_all_attributes example_env)
       example_teacher_config True example_distiller_extra) ''encoder_layers'' = Some (VInt 2)"
proof -
  from resolve_student_config_total [OF example_distiller_keys(2)]
  obtain sc where r: "resolve_student_config (student_defaults example_env)
      (get_all_attributes example_env) example_teacher_config True example_distiller_extra = Inr sc"
    by blast
  note R = resolve_student_config_Inr [OF r]
  have "(''encoder_layers'', ''encoder_layers'') \<in> set student_overrides"
    by (simp add: student_overrides_def)
  with R have "sc ''encoder_layers'' = map_of example_distiller_extra ''encoder_layers''" by blast
  then have a: "sc ''encoder_layers'' = Some (VInt 2)"
    by (simp add: example_distiller_extra_def example_distiller_def)
  have n: "''encoder_embed_dim'' \<notin> fst ` set student_overrides \<and>
      ''encoder_embed_dim'' \<noteq> ''teacher_task_agnostic''"
    by (simp add: student_overrides_def)
  with R have "sc ''encoder_embed_dim'' =
     (if ''encoder_embed_dim'' \<in> set (get_all_attributes example_env) \<and>
         ''encoder_embed_dim'' \<in> fst ` set example_teacher_config
      then map_of example_teacher_config ''encoder_embed_dim''
      else student_defaults example_env ''encoder_embed_dim'')" by blast
  then have b: "sc ''encoder_embed_dim'' = Some (VInt 768)"
    by (simp add: example_env_def example_teacher_config_def)
  from r a b show ?thesis by simp
qed

section \<open>Claims about the ground-truth CTC target\<close>



text \<open>
  Claim C10. The token lookup of the ground-truth target returns exactly when every
  character of every label is, as a one-character string, a key of the 32-entry table;
  those characters are the 26 capital letters, the space and the apostrophe (no single
  character equals one of the four longer keys). A label with any other character makes
  the lookup, and with it the target construction, raise \<open>KeyError\<close> on such a
  character.
\<close>

theorem gt_target_alphabet_precondition:
  "length char_dict = 32 \<and> distinct (map fst char_dict) \<and>
   ([c] \<in> fst ` set char_dict \<longleftrightarrow> c \<in> set alphabet_chars) \<and>
   ((\<exists>toks. gt_tokens (Some labels) = Inr toks) \<longleftrightarrow>
      (\<forall>label\<in>set labels. \<forall>c\<in>set label. [c] \<in> fst ` set char_dict)) \<and>
   (label \<in> set labels \<and> c \<in> set label \<and> [c] \<notin> fst ` set char_dict \<longrightarrow>
      (\<exists>c'. [c'] \<notin> fst ` set char_dict \<and>
            gt_tokens (Some labels) = Inl (KeyError [c']) \<and>
            gt_target (Some labels) = Inl (KeyError [c'])))"
proof -
  have keys: "[d] \<in> fst ` set char_dict \<longleftrightarrow> d \<in> set alphabet_chars" for d
    using char_dict_keys [of d] by (simp add: map_of_eq_None_iff)
  have n: "length char_dict = 32" by (simp add: char_dict_def)
  have d: "distinct (map fst char_dict)" by (simp add: char_dict_def)
  have fails: "\<exists>c'. [c'] \<notin> fst ` set char_dict \<and>
            gt_tokens (Some labels) = Inl (KeyError [c']) \<and>
            gt_target (Some labels) = Inl (KeyError [c'])"
    if "label \<in> set labels" "c \<in> set label" "[c] \<notin> fst ` set char_dict" for label c
  proof -
    from that(3) have "c \<notin> set alphabet_chars" by (simp add: keys)
    from gt_tokens_fails [OF that(1,2) this] obtain c'
      where "c' \<notin> set alphabet_chars" "gt_tokens (Some labels) = Inl (KeyError [c'])" by blast
    then show ?thesis by (auto simp: keys gt_target_def)
  qed
  have iff: "(\<exists>toks. gt_tokens (Some labels) = Inr toks) \<longleftrightarrow>
      (\<forall>label\<in>set labels. \<forall>c\<in>set label. [c] \<in> fst ` set char_dict)"
  proof
    assume "\<exists>toks. gt_tokens (Some labels) = Inr toks"
    then show "\<forall>label\<in>set labels. \<forall>c\<in>set label. [c] \<in> fst ` set char_dict"
      using fails by fastforce
  next
    assume "\<forall>label\<in>set labels. \<forall>c\<in>set label. [c] \<in> fst ` set char_dict"
    then have "\<forall>label\<in>set labels. set label \<subseteq> set alphabet_chars"
      by (auto simp: keys)
    then show "\<exists>toks. gt_tokens (Some labels) = Inr toks" by (rule gt_tokens_total)
  qed
  from n d keys [of c] iff fails [of label c] show ?thesis by simp
qed

theorem gt_target_alphabet_precondition_witness:
  "gt_target (Some [''CAT'', ''Cat'']) = Inl (KeyError ''a'') \<and>
   gt_target (Some [''R2D2'']) = Inl (KeyError ''2'') \<and>
   gt_target (Some [''<unk>'']) = Inl (KeyError ''<'') \<and>
   (\<exists>c'. [c'] \<notin> fst ` set char_dict \<and>
          gt_tokens (Some [''CAT'', ''Cat'']) = Inl (KeyError [c']) \<and>
          gt_target (Some [''CAT'', ''Cat'']) = Inl (KeyError [c'])) \<and>
   (\<exists>toks. gt_tokens (Some [''CAT'', ''HELLO'']) = Inr toks)"
proof -
  have e1: "gt_target (Some [''CAT'', ''Cat'']) = Inl (KeyError ''a'')"
    by (simp add: gt_target_def gt_tokens_def label_tokens_def getitem_def char_dict_def)
  have e2: "gt_target (Some [''R2D2'']) = Inl (KeyError ''2'')"
    by (simp add: gt_target_def gt_tokens_def label_tokens_def getitem_def char_dict_def)
  have e3: "gt_target (Some [''<unk>'']) = Inl (KeyError ''<'')"
    by (simp add: gt_target_def gt_tokens_def label_tokens_def getitem_def char_dict_def)
  have bad: "''Cat'' \<in> set [''CAT'', ''Cat''] \<and> CHR ''a'' \<in> set ''Cat'' \<and>
      [CHR ''a''] \<notin> fst ` set char_dict"
    by (simp add: char_dict_def)
  have good: "\<forall>label\<in>set [''CAT'', ''HELLO'']. \<forall>c\<in>set label. [c] \<in> fst ` set char_dict"
    by (simp add: char_dict_def)
  from gt_target_alphabet_precondition [of "CHR ''a''" "[''CAT'', ''Cat'']" "''Cat''"] bad
  have w1: "\<exists>c'. [c'] \<notin> fst ` set char_dict \<and>
          gt_tokens (Some [''CAT'', ''Cat'']) = Inl (KeyError [c']) \<and>
          gt_target (Some [''CAT'', ''Cat'']) = Inl (KeyError [c'])"
    by blast
  from gt_target_alphabet_precondition [of "CHR ''a''" "[''CAT'', ''HELLO'']" "[]"] good
  have w2: "\<exists>toks. gt_tokens (Some [''CAT'', ''HELLO'']) = Inr toks"
    by blast
  from e1 e2 e3 w1 w2 show ?thesis by blast
qed

section \<open>Claims about the loss\<close>

text \<open>
  Claim C1 says that with a cosine weight of 0 \<^verbatim>\<open>calculate_loss\<close> succeeds and
  returns the per-layer regression means as \<open>losses\<close>. The code does not: for every
  weight that is not positive the method raises. When the regression terms have been
  computed, \<^verbatim>\<open>sim_layer_loss\<close> is \<^verbatim>\<open>None\<close> and \<^verbatim>\<open>torch.add\<close> of line 231
  raises \<^verbatim>\<open>TypeError\<close>; nothing is returned.
\<close>

theorem calculate_loss_disabled_cosine_raises:
  "cosine_weight (train (cfg self)) \<le> 0 \<longrightarrow>
     (\<exists>e. calculate_loss T self sr tr labels = ([], Inl e)) \<and>
     (loss_terms T self sr tr = Inr lt \<longrightarrow>
        sim_layer_loss lt = None \<and>
        calculate_loss T self sr tr labels = ([], Inl TypeError))"
proof (intro impI conjI)
  assume w: "cosine_weight (train (cfg self)) \<le> 0"
  from cosine_disabled_raises [OF w]
  show "\<exists>e. calculate_loss T self sr tr labels = ([], Inl e)" by blast
next
  assume w: "cosine_weight (train (cfg self)) \<le> 0" and lt: "loss_terms T self sr tr = Inr lt"
  from loss_terms_Inr [OF lt] w show "sim_layer_loss lt = None" by (auto split: if_splits)
next
  assume w: "cosine_weight (train (cfg self)) \<le> 0" and lt: "loss_terms T self sr tr = Inr lt"
  from cosine_disabled_raises [OF w, of T sr tr labels] lt
  show "calculate_loss T self sr tr labels = ([], Inl TypeError)" by simp
qed

theorem calculate_loss_disabled_cosine_raises_witness:
  "cosine_weight (train (cfg (example_self True 0))) = 0 \<and>
   loss_terms example_torch (example_self True 0) example_student example_teacher =
     Inr \<lparr>rec_loss = 3 / 2, rec_layer_loss = [1, 3 / 2, 2], sim_loss = 0,
          sim_layer_loss = None, total_loss = 3 / 2\<rparr> \<and>
   calculate_loss example_torch (example_self True 0) example_student example_teacher None =
     ([], Inl TypeError)"
proof -
  have w: "cosine_weight (train (cfg (example_self True 0))) = 0"
    by (simp add: example_self_def)
  note lt = example_loss_terms_disabled [of True]
  from calculate_loss_disabled_cosine_raises
    [of "example_self True 0" example_torch example_student example_teacher None] w lt
  have "calculate_loss example_torch (example_self True 0) example_student example_teacher None =
     ([], Inl TypeError)" by simp
  with w lt show ?thesis by simp
qed

text \<open>
  Claim C2 says that a task-specific loss computation returns the per-layer terms followed
  by the CTC scalar. The code does not return at all when the teacher is not task
  agnostic: \<open>losses\<close> is the tensor that \<^verbatim>\<open>torch.add\<close> returned, and
  \<^verbatim>\<open>losses.append(ctc_loss)\<close> of line 256 raises \<^verbatim>\<open>AttributeError\<close> once the
  CTC loss has been computed.
\<close>

theorem calculate_loss_task_specific_raises:
  assumes "\<not> task_agnostic self"
  shows "isl (snd (calculate_loss T self sr tr labels)) \<and>
     (0 < cosine_weight (train (cfg self)) \<and> loss_terms T self sr tr = Inr lt \<and>
      use_gt_for_ctc (train (cfg self)) \<and> gt_target labels = Inr (target, lens) \<and>
      ctc_loss T (ctc_input T sr) target (input_lengths (ctc_input T sr)) lens = Inr c \<longrightarrow>
      calculate_loss T self sr tr labels = ([CtcLogSoftmax, CtcLoss], Inl AttributeError))"
proof (intro impI conjI)
  from assms show "isl (snd (calculate_loss T self sr tr labels))"
    by (rule calculate_loss_not_agnostic_raises)
next
  assume h: "0 < cosine_weight (train (cfg self)) \<and> loss_terms T self sr tr = Inr lt \<and>
      use_gt_for_ctc (train (cfg self)) \<and> gt_target labels = Inr (target, lens) \<and>
      ctc_loss T (ctc_input T sr) target (input_lengths (ctc_input T sr)) lens = Inr c"
  from h torch_add_layer_losses [of T self sr tr lt] obtain sl where
    add: "torch_add (rec_layer_loss lt) (sim_layer_loss lt) = Inr (Tensor1 (map2 (+) (rec_layer_loss lt) sl))"
    by blast
  from assms h add show "calculate_loss T self sr tr labels = ([CtcLogSoftmax, CtcLoss], Inl AttributeError)"
    by (simp add: calculate_loss_def ctc_branch_def run_simps py_append_def lift_def)
qed

theorem calculate_loss_task_specific_raises_witness:
  "\<not> task_agnostic (example_self False (1 / 2)) \<and>
   pred_layer_id (student (example_self False (1 / 2))) = [4, 8, 12] \<and>
   gt_target (Some [''CAT'', ''HELLO'']) = Inr ([19, 7, 6, 11, 5, 15, 15, 8], [3, 5]) \<and>
   calculate_loss example_torch (example_self False (1 / 2)) example_student example_teacher
     (Some [''CAT'', ''HELLO'']) = ([CtcLogSoftmax, CtcLoss], Inl AttributeError)"
proof -
  have ta: "\<not> task_agnostic (example_self False (1 / 2))"
    and ids: "pred_layer_id (student (example_self False (1 / 2))) = [4, 8, 12]"
    and w: "0 < cosine_weight (train (cfg (example_self False (1 / 2))))"
    and gt: "use_gt_for_ctc (train (cfg (example_self False (1 / 2))))"
    by (simp_all add: example_self_def example_yaml_def)
  have tg: "gt_target (Some [''CAT'', ''HELLO'']) = Inr ([19, 7, 6, 11, 5, 15, 15, 8], [3, 5])"
    by (simp add: gt_target_def gt_tokens_def torch_cat_def label_tokens_def
        getitem_def char_dict_def)
  note lt = example_loss_terms_half [of False]
  have c: "ctc_loss example_torch x1 x2 x3 x4 = Inr 1" for x1 x2 x3 x4
    by (simp add: example_torch_def)
  have "calculate_loss example_torch (example_self False (1 / 2)) example_student example_teacher
     (Some [''CAT'', ''HELLO'']) = ([CtcLogSoftmax, CtcLoss], Inl AttributeError)"
    by (rule calculate_loss_task_specific_raises
          [OF ta, where lt = "\<lparr>rec_loss = 3 / 2, rec_layer_loss = [1, 3 / 2, 2], sim_loss = ln 2,
             sim_layer_loss = Some [ln 2, ln 2, ln 2], total_loss = 3 / 2 + 1 / 2 * ln 2\<rparr>"
           and target = "[19, 7, 6, 11, 5, 15, 15, 8]" and lens = "[3, 5]" and c = 1,
           THEN conjunct2, THEN mp])
       (intro conjI; (rule w lt gt tg c))
  with ta ids tg show ?thesis by simp
qed

text \<open>
  Claim C3 says that the total loss returned by \<^verbatim>\<open>calculate_loss\<close> is the regression
  scalar plus the cosine weight times the cosine scalar and, in particular, is the
  regression scalar when the weight is 0. The code returns such a total only for a
  positive weight: whenever \<^verbatim>\<open>calculate_loss\<close> returns, the weight is positive and
  the returned total is that sum. With a weight of 0 no total is returned at all:
  the method raises, and once the regression terms have been computed the exception is
  the \<^verbatim>\<open>TypeError\<close> of \<^verbatim>\<open>torch.add\<close> at line 231, two lines after
  \<^verbatim>\<open>total_loss\<close> was bound. The defect is the one of claim C1.
\<close>

theorem total_loss_not_returned_at_weight_zero:
  "(calculate_loss T self sr tr labels = (evs, Inr (tot, losses)) \<longrightarrow>
      0 < cosine_weight (train (cfg self)) \<and>
      (\<exists>lt. loss_terms T self sr tr = Inr lt \<and>
         tot = rec_loss lt + cosine_weight (train (cfg self)) * sim_loss lt)) \<and>
   (cosine_weight (train (cfg self)) = 0 \<longrightarrow>
      isl (snd (calculate_loss T self sr tr labels)) \<and>
      (loss_terms T self sr tr = Inr lt \<longrightarrow>
         calculate_loss T self sr tr labels = ([], Inl TypeError)))"
proof (rule conjI)
  show "calculate_loss T self sr tr labels = (evs, Inr (tot, losses)) \<longrightarrow>
      0 < cosine_weight (train (cfg self)) \<and>
      (\<exists>lt. loss_terms T self sr tr = Inr lt \<and>
         tot = rec_loss lt + cosine_weight (train (cfg self)) * sim_loss lt)"
  proof (rule impI)
    assume r: "calculate_loss T self sr tr labels = (evs, Inr (tot, losses))"
    from calculate_loss_returns [OF r] obtain lt' where
      w: "0 < cosine_weight (train (cfg self))"
      and lt': "loss_terms T self sr tr = Inr lt'" and tt: "tot = total_loss lt'" by blast
    from lt' obtain target r where
      "total_loss lt' = rec_loss lt' + cosine_weight (train (cfg self)) * sim_loss lt'"
      by (rule loss_terms_Inr)
    with tt have "tot = rec_loss lt' + cosine_weight (train (cfg self)) * sim_loss lt'" by simp
    with lt' have "\<exists>lt. loss_terms T self sr tr = Inr lt \<and>
         tot = rec_loss lt + cosine_weight (train (cfg self)) * sim_loss lt"
      by (intro exI [of _ lt'] conjI)
    with w show "0 < cosine_weight (train (cfg self)) \<and>
      (\<exists>lt. loss_terms T self sr tr = Inr lt \<and>
         tot = rec_loss lt + cosine_weight (train (cfg self)) * sim_loss lt)" by (rule conjI)
  qed
next
  show "cosine_weight (train (cfg self)) = 0 \<longrightarrow>
      isl (snd (calculate_loss T self sr tr labels)) \<and>
      (loss_terms T self sr tr = Inr lt \<longrightarrow>
         calculate_loss T self sr tr labels = ([], Inl TypeError))"
  proof (intro impI conjI)
    assume "cosine_weight (train (cfg self)) = 0"
    then have w: "cosine_weight (train (cfg self)) \<le> 0" by simp
    from cosine_disabled_raises [OF w, of T sr tr labels]
    show "isl (snd (calculate_loss T self sr tr labels))" by simp
  next
    assume "cosine_weight (train (cfg self)) = 0" and lt: "loss_terms T self sr tr = Inr lt"
    then have w: "cosine_weight (train (cfg self)) \<le> 0" by simp
    from cosine_disabled_raises [OF w, of T sr tr labels] lt
    show "calculate_loss T self sr tr labels = ([], Inl TypeError)" by simp
  qed
qed

theorem total_loss_not_returned_at_weight_zero_witness:
  "cosine_weight (train (cfg (example_self True 0))) = 0 \<and>
   rec_loss (projr (loss_terms example_torch (example_self True 0) example_student example_teacher)) =
     3 / 2 \<and>
   total_loss (projr (loss_terms example_torch (example_self True 0) example_student example_teacher)) =
     3 / 2 \<and>
   calculate_loss example_torch (example_self True 0) example_student example_teacher None =
     ([], Inl TypeError) \<and>
   calculate_loss example_torch (example_self True (1 / 2)) example_student example_teacher None =
     ([], Inr (3 / 2 + 1 / 2 * ln 2, Tensor1 [1 + ln 2, 3 / 2 + ln 2, 2 + ln 2])) \<and>
   0 < cosine_weight (train (cfg (example_self True (1 / 2)))) \<and>
   (\<exists>lt. loss_terms example_torch (example_self True (1 / 2)) example_student example_teacher = Inr lt \<and>
      3 / 2 + 1 / 2 * ln 2 =
        rec_loss lt + cosine_weight (train (cfg (example_self True (1 / 2)))) * sim_loss lt)"
proof -
  have w0: "cosine_weight (train (cfg (example_self True 0))) = 0"
    by (simp add: example_self_def example_yaml_def)
  note lt0 = example_loss_terms_disabled [of True]
  have r0: "rec_loss (projr (loss_terms example_torch (example_self True 0) example_student example_teacher)) =
     3 / 2"
    and t0: "total_loss (projr (loss_terms example_torch (example_self True 0) example_student example_teacher)) =
     3 / 2"
    by (simp_all add: lt0)
  have c0: "calculate_loss example_torch (example_self True 0) example_student example_teacher None =
     ([], Inl TypeError)"
    by (rule total_loss_not_returned_at_weight_zero
          [where evs = "[]" and tot = 0 and losses = "Tensor1 []",
           THEN conjunct2, THEN mp, OF w0, THEN conjunct2, THEN mp, OF lt0])
  note ev = example_calculate_loss
  note pos = total_loss_not_returned_at_weight_zero
    [where lt = undefined and labels = None and evs = "[]", THEN conjunct1, THEN mp, OF ev]
  from w0 r0 t0 c0 ev pos [THEN conjunct1] pos [THEN conjunct2] show ?thesis by (intro conjI)
qed

section \<open>Claims about the steps\<close>

text \<open>
  Claim C9. When the teacher is task agnostic, no quantity of the CTC objective is
  computed in a training, validation or test step: \<^verbatim>\<open>calculate_loss\<close> calls no
  collaborator at all (its CTC branch is not entered), and no step computes the CTC
  input, converts the teacher's output, computes the CTC loss, decodes, or adds to a
  metric.
\<close>

theorem task_agnostic_steps_compute_no_ctc:
  assumes "task_agnostic self"
  shows "fst (calculate_loss T self sr tr labels) = [] \<and>
     (\<forall>ev\<in>set (fst (training_step T self b)). \<not> ctc_related ev) \<and>
     (\<forall>ev\<in>set (fst (validation_step T self b)). \<not> ctc_related ev) \<and>
     (\<forall>ev\<in>set (fst (test_step T self b)). \<not> ctc_related ev)"
proof (intro conjI ballI)
  from assms show "fst (calculate_loss T self sr tr labels) = []"
    by (rule calculate_loss_no_events)
next
  fix ev assume "ev \<in> set (fst (training_step T self b))"
  with assms show "\<not> ctc_related ev" by (rule training_step_events)
next
  fix ev assume "ev \<in> set (fst (validation_step T self b))"
  with assms show "\<not> ctc_related ev" by (rule validation_step_events)
next
  fix ev assume "ev \<in> set (fst (test_step T self b))"
  with assms show "\<not> ctc_related ev" by (rule test_step_events)
qed

theorem task_agnostic_steps_compute_no_ctc_witness:
  "task_agnostic (example_self True (1 / 2)) \<and>
   fst (training_step example_torch (example_self True (1 / 2)) example_batch) =
     [Forward, Log ''loss1'' (Scalar (1 + ln 2)), Log ''loss2'' (Scalar (3 / 2 + ln 2)),
      Log ''loss3'' (Scalar (2 + ln 2))] \<and>
   fst (validation_step example_torch (example_self True (1 / 2)) example_batch) =
     [Forward, Log ''v_loss'' (Scalar (3 / 2 + 1 / 2 * ln 2))] \<and>
   fst (test_step example_torch (example_self True (1 / 2)) example_batch) =
     [Forward, Log ''test_loss''
        (Tensor1 [5 / 2 + 3 / 2 * ln 2, 3 + 3 / 2 * ln 2, 7 / 2 + 3 / 2 * ln 2])] \<and>
   list_all (\<lambda>ev. \<not> ctc_related ev)
     (fst (training_step example_torch (example_self True (1 / 2)) example_batch)) \<and>
   list_all (\<lambda>ev. \<not> ctc_related ev)
     (fst (validation_step example_torch (example_self True (1 / 2)) example_batch)) \<and>
   list_all (\<lambda>ev. \<not> ctc_related ev)
     (fst (test_step example_torch (example_self True (1 / 2)) example_batch))"
proof -
  have ta: "task_agnostic (example_self True (1 / 2))"
    by (simp add: example_self_def)
  note t = task_agnostic_steps_compute_no_ctc
    [OF ta, of example_torch example_student example_teacher None example_batch]
  have l1: "list_all (\<lambda>ev. \<not> ctc_related ev)
     (fst (training_step example_torch (example_self True (1 / 2)) example_batch))"
    using t [THEN conjunct2, THEN conjunct1] by (simp only: list_all_iff)
  have l2: "list_all (\<lambda>ev. \<not> ctc_related ev)
     (fst (validation_step example_torch (example_self True (1 / 2)) example_batch))"
    using t [THEN conjunct2, THEN conjunct2, THEN conjunct1] by (simp only: list_all_iff)
  have l3: "list_all (\<lambda>ev. \<not> ctc_related ev)
     (fst (test_step example_torch (example_self True (1 / 2)) example_batch))"
    using t [THEN conjunct2, THEN conjunct2, THEN conjunct2] by (simp only: list_all_iff)
  have e1: "fst (training_step example_torch (example_self True (1 / 2)) example_batch) =
     [Forward, Log ''loss1'' (Scalar (1 + ln 2)), Log ''loss2'' (Scalar (3 / 2 + ln 2)),
      Log ''loss3'' (Scalar (2 + ln 2))]"
    by (simp only: example_training_step fst_conv)
  have e2: "fst (validation_step example_torch (example_self True (1 / 2)) example_batch) =
     [Forward, Log ''v_loss'' (Scalar (3 / 2 + 1 / 2 * ln 2))]"
    by (simp only: example_validation_step fst_conv)
  have e3: "fst (test_step example_torch (example_self True (1 / 2)) example_batch) =
     [Forward, Log ''test_loss''
        (Tensor1 [5 / 2 + 3 / 2 * ln 2, 3 + 3 / 2 * ln 2, 7 / 2 + 3 / 2 * ln 2])]"
    by (simp only: example_test_step fst_conv)
  from ta e1 e2 e3 l1 l2 l3 show ?thesis by (intro conjI)
qed

text \<open>
  Claim C6 says that the loss the test step logs and returns is the scalar total loss of
  \<^verbatim>\<open>calculate_loss\<close>, as in the training and validation steps. The code of
  \<^verbatim>\<open>test_step\<close> does not unpack the pair: whenever the test step returns, its loss
  is the sum of the pair, a tensor with the total added to each per-layer loss, and is
  never the scalar total; the validation step on the same batch returns the scalar total.
\<close>

theorem test_step_returns_sum_of_pair:
  assumes "test_step T self b = (evs, Inr v)"
  shows "\<exists>sr tr tot ls.
     models T (b_x b) (b_padding_mask b) = Inr (sr, tr) \<and>
     calculate_loss T self sr tr None = ([], Inr (tot, Tensor1 ls)) \<and>
     v = Tensor1 (map (\<lambda>l. tot + l) ls) \<and> v \<noteq> Scalar tot \<and>
     evs = [Forward, Log ''test_loss'' v] \<and>
     validation_step T self b = ([Forward, Log ''v_loss'' (Scalar tot)], Inr (Scalar tot))"
proof -
  from assms obtain e1 sr tr where f: "forward T b = (e1, Inr (sr, tr))"
    by (cases "forward T b"; cases "snd (forward T b)")
       (auto simp: test_step_def bind_run_def split: sum.splits prod.splits)
  from forward_returns [OF f] have e1: "e1 = [Forward]"
    and m: "models T (b_x b) (b_padding_mask b) = Inr (sr, tr)" by simp_all
  from assms f e1 obtain e2 tot losses where sl: "step_loss T self b sr tr = (e2, Inr (tot, losses))"
    by (cases "step_loss T self b sr tr"; cases "snd (step_loss T self b sr tr)")
       (auto simp: test_step_def bind_run_def split: sum.splits prod.splits)
  from step_loss_returns [OF sl] obtain ls where ta: "task_agnostic self" and e2: "e2 = []"
    and c: "calculate_loss T self sr tr None = ([], Inr (tot, Tensor1 ls))"
    and l: "losses = Tensor1 ls" by auto
  from assms f e1 sl e2 l ta have v: "v = Tensor1 (map (\<lambda>l. tot + l) ls)"
    and evs: "evs = [Forward, Log ''test_loss'' v]"
    by (auto simp: test_step_def run_simps py_sum_pair_def ret_def emit_def)
  from f e1 sl e2 ta
  have val: "validation_step T self b = ([Forward, Log ''v_loss'' (Scalar tot)], Inr (Scalar tot))"
    by (simp add: validation_step_def run_simps ret_def emit_def)
  from m c v evs val show ?thesis by (intro exI [of _ sr] exI [of _ tr] exI [of _ tot] exI [of _ ls]) simp
qed

theorem test_step_returns_sum_of_pair_witness:
  "calculate_loss example_torch (example_self True (1 / 2)) example_student example_teacher None =
     ([], Inr (3 / 2 + 1 / 2 * ln 2, Tensor1 [1 + ln 2, 3 / 2 + ln 2, 2 + ln 2])) \<and>
   training_step example_torch (example_self True (1 / 2)) example_batch =
     ([Forward, Log ''loss1'' (Scalar (1 + ln 2)), Log ''loss2'' (Scalar (3 / 2 + ln 2)),
       Log ''loss3'' (Scalar (2 + ln 2))],
      Inr (Scalar (3 / 2 + 1 / 2 * ln 2))) \<and>
   test_step example_torch (example_self True (1 / 2)) example_batch =
     ([Forward, Log ''test_loss''
         (Tensor1 [5 / 2 + 3 / 2 * ln 2, 3 + 3 / 2 * ln 2, 7 / 2 + 3 / 2 * ln 2])],
      Inr (Tensor1 [5 / 2 + 3 / 2 * ln 2, 3 + 3 / 2 * ln 2, 7 / 2 + 3 / 2 * ln 2])) \<and>
   (\<exists>sr tr tot ls.
     models example_torch (b_x example_batch) (b_padding_mask example_batch) = Inr (sr, tr) \<and>
     calculate_loss example_torch (example_self True (1 / 2)) sr tr None = ([], Inr (tot, Tensor1 ls)) \<and>
     Tensor1 [5 / 2 + 3 / 2 * ln 2, 3 + 3 / 2 * ln 2, 7 / 2 + 3 / 2 * ln 2] =
       Tensor1 (map (\<lambda>l. tot + l) ls) \<and>
     Tensor1 [5 / 2 + 3 / 2 * ln 2, 3 + 3 / 2 * ln 2, 7 / 2 + 3 / 2 * ln 2] \<noteq> Scalar tot \<and>
     [Forward, Log ''test_loss''
         (Tensor1 [5 / 2 + 3 / 2 * ln 2, 3 + 3 / 2 * ln 2, 7 / 2 + 3 / 2 * ln 2])] =
       [Forward, Log ''test_loss''
         (Tensor1 [5 / 2 + 3 / 2 * ln 2, 3 + 3 / 2 * ln 2, 7 / 2 + 3 / 2 * ln 2])] \<and>
     validation_step example_torch (example_self True (1 / 2)) example_batch =
       ([Forward, Log ''v_loss'' (Scalar tot)], Inr (Scalar tot)))"
  by (intro conjI example_calculate_loss example_training_step example_test_step
      test_step_returns_sum_of_pair [OF example_test_step])

section \<open>Claims about the configuration and the construction\<close>

text \<open>
  Claim C5 says that every attribute name present both in the teacher's configuration and
  in the override mapping resolves to the override's value. The code reads only the nine
  keys of \<^verbatim>\<open>update_student_config\<close> from the mapping (the comment of lines 59--60
  says so): an entry under another name is not read, and an attribute of that name keeps
  the value copied from the teacher. In the example below the mapping holds
  \<^verbatim>\<open>encoder_embed_dim: 480\<close>, the teacher's configuration holds 768, and the
  resolved value is 768.
\<close>

theorem override_precedence_counterexample:
  "map_of example_teacher_config ''encoder_embed_dim'' = Some (VInt 768) \<and>
   map_of example_distiller_extra ''encoder_embed_dim'' = Some (VInt 480) \<and>
   \<not> isl (resolve_student_config (student_defaults example_env) (get_all_attributes example_env)
       example_teacher_config True example_distiller_extra) \<and>
   projr (resolve_student_config (student_defaults example_env) (get_all_attributes example_env)
       example_teacher_config True example_distiller_extra) ''encoder_embed_dim'' = Some (VInt 768)"
proof -
  have a: "map_of example_teacher_config ''encoder_embed_dim'' = Some (VInt 768)"
    by (simp add: example_teacher_config_def)
  have b: "map_of example_distiller_extra ''encoder_embed_dim'' = Some (VInt 480)"
    by (simp add: example_distiller_extra_def example_distiller_def)
  from a b example_resolve_extra show ?thesis by (intro conjI) simp_all
qed

text \<open>
  Claim C5, amended. Whenever the student configuration is resolved, each of the nine
  attributes that \<^verbatim>\<open>update_student_config\<close> assigns has the value that the override
  mapping holds under the key it is read from (three attributes are read from a key of
  another name), whatever the teacher's configuration holds, and
  \<^verbatim>\<open>teacher_task_agnostic\<close> is the loader's flag; every key read is present in the
  mapping. Any other attribute has the teacher's value when its name is in the student's
  schema and in the teacher's configuration, and the student's default otherwise.
\<close>

theorem overrides_win_for_assigned_attributes:
  assumes "resolve_student_config defaults target_keys teacher_config ta dcfg = Inr sc"
  shows "sc ''encoder_layers'' = map_of dcfg ''encoder_layers'' \<and>
     sc ''enable_tr_layer'' = map_of dcfg ''enable_tr_layer'' \<and>
     sc ''type_of_tr_layer'' = map_of dcfg ''type_of_tr_layer'' \<and>
     sc ''tr_layer_floor'' = map_of dcfg ''tr_layer_index'' \<and>
     sc ''init_conv_layers'' = map_of dcfg ''init_conv_layers'' \<and>
     sc ''init_encoder_layers'' = map_of dcfg ''init_encoder_layers'' \<and>
     sc ''proj_head_inter_dim'' = map_of dcfg ''pred_head_inter_dim'' \<and>
     sc ''proj_head_final_dim'' = map_of dcfg ''pred_head_final_dim'' \<and>
     sc ''pred_layer_id'' = map_of dcfg ''pred_layer_id'' \<and>
     sc ''teacher_task_agnostic'' = Some (VBool ta) \<and>
     (\<forall>key\<in>set required_keys. map_of dcfg key \<noteq> None) \<and>
     (\<forall>a. a \<notin> fst ` set student_overrides \<and> a \<noteq> ''teacher_task_agnostic'' \<longrightarrow>
        sc a = (if a \<in> set target_keys \<and> a \<in> fst ` set teacher_config
                then map_of teacher_config a else defaults a))"
proof -
  note R = resolve_student_config_Inr [OF assms]
  from R have ov: "sc attr = map_of dcfg key \<and> map_of dcfg key \<noteq> None"
    if "(attr, key) \<in> set student_overrides" for attr key
    using that by blast
  have keys: "\<forall>key\<in>set required_keys. map_of dcfg key \<noteq> None"
  proof
    fix key assume "key \<in> set required_keys"
    then obtain attr where "(attr, key) \<in> set student_overrides"
      by (auto simp: required_keys_def)
    from ov [OF this] show "map_of dcfg key \<noteq> None" by simp
  qed
  have m: "(''encoder_layers'', ''encoder_layers'') \<in> set student_overrides"
    "(''enable_tr_layer'', ''enable_tr_layer'') \<in> set student_overrides"
    "(''type_of_tr_layer'', ''type_of_tr_layer'') \<in> set student_overrides"
    "(''tr_layer_floor'', ''tr_layer_index'') \<in> set student_overrides"
    "(''init_conv_layers'', ''init_conv_layers'') \<in> set student_overrides"
    "(''init_encoder_layers'', ''init_encoder_layers'') \<in> set student_overrides"
    "(''proj_head_inter_dim'', ''pred_head_inter_dim'') \<in> set student_overrides"
    "(''proj_head_final_dim'', ''pred_head_final_dim'') \<in> set student_overrides"
    "(''pred_layer_id'', ''pred_layer_id'') \<in> set student_overrides"
    by (simp_all add: student_overrides_def)
  from R have t: "sc ''teacher_task_agnostic'' = Some (VBool ta)" by blast
  from R have o: "\<forall>a. a \<notin> fst ` set student_overrides \<and> a \<noteq> ''teacher_task_agnostic'' \<longrightarrow>
        sc a = (if a \<in> set target_keys \<and> a \<in> fst ` set teacher_config
                then map_of teacher_config a else defaults a)" by blast
  from ov [OF m(1)] ov [OF m(2)] ov [OF m(3)] ov [OF m(4)] ov [OF m(5)] ov [OF m(6)]
    ov [OF m(7)] ov [OF m(8)] ov [OF m(9)] t keys o
  show ?thesis by (intro conjI) simp_all
qed

theorem overrides_win_for_assigned_attributes_witness:
  "map_of example_teacher_config ''encoder_layers'' = Some (VInt 12) \<and>
   map_of example_distiller_extra ''encoder_layers'' = Some (VInt 2) \<and>
   projr (resolve_student_config (student_defaults example_env) (get_all_attributes example_env)
       example_teacher_config True example_distiller_extra) ''encoder_layers'' = Some (VInt 2) \<and>
   projr (resolve_student_config (student_defaults example_env) (get_all_attributes example_env)
       example_teacher_config True example_distiller_extra) ''tr_layer_floor'' = Some (VInt 0) \<and>
   projr (resolve_student_config (student_defaults example_env) (get_all_attributes example_env)
       example_teacher_config True example_distiller_extra) ''teacher_task_agnostic'' =
     Some (VBool True)"
proof -
  let ?r = "resolve_student_config (student_defaults example_env) (get_all_attributes example_env)
       example_teacher_config True example_distiller_extra"
  from example_resolve_extra have "\<not> isl ?r" by blast
  then have r: "?r = Inr (projr ?r)" by (cases ?r) simp_all
  note T = overrides_win_for_assigned_attributes [OF r]
  have a: "map_of example_teacher_config ''encoder_layers'' = Some (VInt 12)"
    by (simp add: example_teacher_config_def)
  have b: "map_of example_distiller_extra ''encoder_layers'' = Some (VInt 2)"
    "map_of example_distiller_extra ''tr_layer_index'' = Some (VInt 0)"
    by (simp_all add: example_distiller_extra_def example_distiller_def)
  from T b have c: "projr ?r ''encoder_layers'' = Some (VInt 2)"
    "projr ?r ''tr_layer_floor'' = Some (VInt 0)"
    "projr ?r ''teacher_task_agnostic'' = Some (VBool True)" by simp_all
  from a b(1) c show ?thesis by (intro conjI)
qed

text \<open>
  Claim C8. If the override mapping omits one of the nine keys that
  \<^verbatim>\<open>update_student_config\<close> reads, the method raises \<^verbatim>\<open>KeyError\<close> for the first
  missing key in source order, and so does the resolution of the student configuration;
  \<^verbatim>\<open>__init__\<close> then ends with an exception and has neither written the
  configuration nor constructed the student model. No default takes the place of a
  missing key.
\<close>

theorem missing_required_key_raises_before_student_model:
  assumes "key \<in> set required_keys" "map_of (distiller yaml) key = None"
  shows "required_keys =
       [''encoder_layers'', ''enable_tr_layer'', ''type_of_tr_layer'', ''tr_layer_index'',
        ''init_conv_layers'', ''init_encoder_layers'', ''pred_head_inter_dim'',
        ''pred_head_final_dim'', ''pred_layer_id''] \<and>
     (\<exists>k. find (\<lambda>k. map_of (distiller yaml) k = None) required_keys = Some k \<and>
        update_student_config ta sc (distiller yaml) = Inl (KeyError k) \<and>
        resolve_student_config defaults target_keys teacher_config ta (distiller yaml) =
          Inl (KeyError k) \<and>
        (load_model_and_config X (teacher_model yaml) = Inr (teacher_config, ta) \<longrightarrow>
           init X yaml =
             ([LoadMetric ''wer'', LoadMetric ''cer'', LoadTeacher (teacher_model yaml),
               FreezeTeacher], Inl (KeyError k)))) \<and>
     isl (snd (init X yaml)) \<and>
     DumpConfig \<notin> set (fst (init X yaml)) \<and>
     ConstructStudent \<notin> set (fst (init X yaml))"
proof -
  have rk: "required_keys =
       [''encoder_layers'', ''enable_tr_layer'', ''type_of_tr_layer'', ''tr_layer_index'',
        ''init_conv_layers'', ''init_encoder_layers'', ''pred_head_inter_dim'',
        ''pred_head_final_dim'', ''pred_layer_id'']"
    by (simp add: required_keys_def student_overrides_def)
  from first_missing_exists [OF assms] obtain k
    where f: "find (\<lambda>k. map_of (distiller yaml) k = None) required_keys = Some k" by blast
  note u = update_student_config_first_missing [OF f, of ta sc]
  note r = resolve_student_config_first_missing [OF f, of defaults target_keys teacher_config ta]
  have i: "init X yaml =
             ([LoadMetric ''wer'', LoadMetric ''cer'', LoadTeacher (teacher_model yaml),
               FreezeTeacher], Inl (KeyError k))"
    if "load_model_and_config X (teacher_model yaml) = Inr (teacher_config, ta)"
    by (rule init_resolve_fails [OF that resolve_student_config_first_missing [OF f]])
  have ex: "\<exists>k. find (\<lambda>k. map_of (distiller yaml) k = None) required_keys = Some k \<and>
        update_student_config ta sc (distiller yaml) = Inl (KeyError k) \<and>
        resolve_student_config defaults target_keys teacher_config ta (distiller yaml) =
          Inl (KeyError k) \<and>
        (load_model_and_config X (teacher_model yaml) = Inr (teacher_config, ta) \<longrightarrow>
           init X yaml =
             ([LoadMetric ''wer'', LoadMetric ''cer'', LoadTeacher (teacher_model yaml),
               FreezeTeacher], Inl (KeyError k)))"
    using f u r i by (intro exI [of _ k] conjI impI)
  have fin: "isl (snd (init X yaml)) \<and> DumpConfig \<notin> set (fst (init X yaml)) \<and>
     ConstructStudent \<notin> set (fst (init X yaml))"
  proof (cases "load_model_and_config X (teacher_model yaml)")
    case (Inl e)
    from init_load_fails [OF this] show ?thesis by simp
  next
    case (Inr p)
    obtain tc' ta' where p: "p = (tc', ta')" by (cases p)
    from init_resolve_fails [OF Inr [unfolded p] resolve_student_config_first_missing [OF f]]
    show ?thesis by simp
  qed
  from rk ex fin show ?thesis by (intro conjI) simp_all
qed

theorem missing_required_key_raises_before_student_model_witness:
  "''pred_layer_id'' \<in> set required_keys \<and>
   map_of (distiller example_yaml_missing_key) ''pred_layer_id'' = None \<and>
   init example_env example_yaml_missing_key =
     ([LoadMetric ''wer'', LoadMetric ''cer'', LoadTeacher ''wav2vec_small.pt'', FreezeTeacher],
      Inl (KeyError ''pred_layer_id'')) \<and>
   isl (snd (init example_env example_yaml_missing_key)) \<and>
   DumpConfig \<notin> set (fst (init example_env example_yaml_missing_key)) \<and>
   ConstructStudent \<notin> set (fst (init example_env example_yaml_missing_key))"
proof -
  have k: "''pred_layer_id'' \<in> set required_keys"
    by (simp add: required_keys_def student_overrides_def)
  have m: "map_of (distiller example_yaml_missing_key) ''pred_layer_id'' = None"
    by (simp add: example_yaml_missing_key_def example_yaml_def example_distiller_def)
  note T = missing_required_key_raises_before_student_model
    [OF k m, of True Map.empty Map.empty "[]" "[]" example_env]
  from T have fin: "isl (snd (init example_env example_yaml_missing_key))"
    "DumpConfig \<notin> set (fst (init example_env example_yaml_missing_key))"
    "ConstructStudent \<notin> set (fst (init example_env example_yaml_missing_key))"
    by simp_all
  from k m example_init_missing_key fin show ?thesis by (intro conjI)
qed

text \<open>
  Claim C7 says that a learning-rate expression that fails to evaluate ends the run at
  startup, before the teacher is loaded and the student constructed. The code evaluates
  the expression only in \<^verbatim>\<open>configure_optimizers\<close> (line 261), which the trainer
  calls on the constructed module. In the example below \<^verbatim>\<open>eval\<close> refuses the
  learning rate, and the run has loaded the teacher, written the configuration,
  constructed the student and built the three data sets before the exception.
\<close>

theorem learning_rate_fails_fast_counterexample:
  "py_eval example_env (learning_rate (train example_yaml_bad_lr)) =
     Inl (External ''SyntaxError'') \<and>
   main_fit example_env example_yaml_bad_lr =
     ([LoadMetric ''wer'', LoadMetric ''cer'', LoadTeacher ''wav2vec_small.pt'', FreezeTeacher,
       DumpConfig, ConstructStudent, BuildDataset [''train-clean-100''],
       BuildDataset [''dev-clean''], BuildDataset [''test-clean''],
       EvalLearningRate ''2e-4 *''],
      Inl (External ''SyntaxError'')) \<and>
   ConstructStudent \<in> set (fst (main_fit example_env example_yaml_bad_lr)) \<and>
   LoadTeacher ''wav2vec_small.pt'' \<in> set (fst (main_fit example_env example_yaml_bad_lr))"
proof -
  have e: "py_eval example_env (learning_rate (train example_yaml_bad_lr)) =
     Inl (External ''SyntaxError'')"
    by (simp add: example_yaml_bad_lr_def example_yaml_def example_env_def)
  from e example_main_fit_bad_lr show ?thesis by (intro conjI) simp_all
qed

text \<open>
  Claim C7, amended. \<^verbatim>\<open>__init__\<close> never evaluates the learning-rate expression. If
  the expression fails to evaluate and \<^verbatim>\<open>__init__\<close> has returned, then the teacher
  has been loaded and the student constructed, \<^verbatim>\<open>configure_optimizers\<close> raises the
  exception of \<^verbatim>\<open>eval\<close> as the first thing it does, and the run ends with that
  exception after the calls of \<^verbatim>\<open>__init__\<close>.
\<close>

theorem learning_rate_error_raised_in_configure_optimizers:
  assumes "py_eval X (learning_rate (train yaml)) = Inl e"
  shows "(\<forall>s. EvalLearningRate s \<notin> set (fst (init X yaml))) \<and>
     (init X yaml = (evs, Inr self) \<longrightarrow>
        LoadTeacher (teacher_model yaml) \<in> set evs \<and> ConstructStudent \<in> set evs \<and>
        configure_optimizers X self = ([EvalLearningRate (learning_rate (train yaml))], Inl e) \<and>
        main_fit X yaml = (evs @ [EvalLearningRate (learning_rate (train yaml))], Inl e))"
proof (intro conjI allI impI)
  fix s show "EvalLearningRate s \<notin> set (fst (init X yaml))"
    by (rule init_never_evaluates)
next
  assume i: "init X yaml = (evs, Inr self)"
  from init_returns [OF i] show "LoadTeacher (teacher_model yaml) \<in> set evs"
    by (simp add: init_events_def)
next
  assume i: "init X yaml = (evs, Inr self)"
  from init_returns [OF i] show "ConstructStudent \<in> set evs"
    by (simp add: init_events_def)
next
  assume i: "init X yaml = (evs, Inr self)"
  from init_returns [OF i] have c: "cfg self = yaml" by simp
  with assms have "py_eval X (learning_rate (train (cfg self))) = Inl e" by simp
  from configure_optimizers_eval_fails [OF this] c
  show "configure_optimizers X self = ([EvalLearningRate (learning_rate (train yaml))], Inl e)"
    by simp
next
  assume i: "init X yaml = (evs, Inr self)"
  from main_fit_eval_fails [OF i assms]
  show "main_fit X yaml = (evs @ [EvalLearningRate (learning_rate (train yaml))], Inl e)" .
qed

theorem learning_rate_error_raised_in_configure_optimizers_witness:
  "py_eval example_env (learning_rate (train example_yaml_bad_lr)) =
     Inl (External ''SyntaxError'') \<and>
   fst (init example_env example_yaml_bad_lr) = init_events example_yaml_bad_lr \<and>
   \<not> isl (snd (init example_env example_yaml_bad_lr)) \<and>
   EvalLearningRate ''2e-4 *'' \<notin> set (fst (init example_env example_yaml_bad_lr)) \<and>
   main_fit example_env example_yaml_bad_lr =
     (init_events example_yaml_bad_lr @ [EvalLearningRate (learning_rate (train example_yaml_bad_lr))],
      Inl (External ''SyntaxError''))"
proof -
  have e: "py_eval example_env (learning_rate (train example_yaml_bad_lr)) =
     Inl (External ''SyntaxError'')"
    by (simp add: example_yaml_bad_lr_def example_yaml_def example_env_def)
  have d: "distiller example_yaml_bad_lr = example_distiller"
    by (simp add: example_yaml_bad_lr_def example_yaml_def)
  from example_init [OF d] obtain self
    where i: "init example_env example_yaml_bad_lr = (init_events example_yaml_bad_lr, Inr self)"
    by blast
  note T = learning_rate_error_raised_in_configure_optimizers
    [OF e, of "init_events example_yaml_bad_lr" self]
  from T have n: "EvalLearningRate ''2e-4 *'' \<notin> set (fst (init example_env example_yaml_bad_lr))"
    by blast
  from T i have m: "main_fit example_env example_yaml_bad_lr =
     (init_events example_yaml_bad_lr @ [EvalLearningRate (learning_rate (train example_yaml_bad_lr))],
      Inl (External ''SyntaxError''))" by blast
  from i have f: "fst (init example_env example_yaml_bad_lr) = init_events example_yaml_bad_lr"
    and s: "\<not> isl (snd (init example_env example_yaml_bad_lr))" by simp_all
  from e f s n m show ?thesis by (intro conjI)
qed

end
